theory Spec2Isabelle
  imports Complex_Main
begin

section \<open>JavaScript numbers\<close>

text \<open>
  The simulation computes with JavaScript \<open>number\<close>s. They are modelled as the real
  numbers extended by the three special values of IEEE 754: the two infinities and NaN.
  Arithmetic on finite values is exact (rounding, overflow and the sign of zero are outside
  the model); the special values propagate as IEEE 754 prescribes.
\<close>

datatype jsnum = Fin real | PInf | NInf | NaN

fun jneg :: "jsnum \<Rightarrow> jsnum" where
  "jneg (Fin a) = Fin (- a)"
| "jneg PInf = NInf"
| "jneg NInf = PInf"
| "jneg NaN = NaN"

fun jadd :: "jsnum \<Rightarrow> jsnum \<Rightarrow> jsnum" where
  "jadd (Fin a) (Fin b) = Fin (a + b)"
| "jadd NaN _ = NaN"
| "jadd _ NaN = NaN"
| "jadd PInf NInf = NaN"
| "jadd NInf PInf = NaN"
| "jadd PInf _ = PInf"
| "jadd _ PInf = PInf"
| "jadd NInf _ = NInf"
| "jadd _ NInf = NInf"

definition jsub :: "jsnum \<Rightarrow> jsnum \<Rightarrow> jsnum" where
  "jsub a b = jadd a (jneg b)"

fun jmul :: "jsnum \<Rightarrow> jsnum \<Rightarrow> jsnum" where
  "jmul (Fin a) (Fin b) = Fin (a * b)"
| "jmul NaN _ = NaN"
| "jmul _ NaN = NaN"
| "jmul (Fin a) PInf = (if a = 0 then NaN else if 0 < a then PInf else NInf)"
| "jmul (Fin a) NInf = (if a = 0 then NaN else if 0 < a then NInf else PInf)"
| "jmul PInf (Fin b) = (if b = 0 then NaN else if 0 < b then PInf else NInf)"
| "jmul NInf (Fin b) = (if b = 0 then NaN else if 0 < b then NInf else PInf)"
| "jmul PInf PInf = PInf"
| "jmul PInf NInf = NInf"
| "jmul NInf PInf = NInf"
| "jmul NInf NInf = PInf"

fun jdiv :: "jsnum \<Rightarrow> jsnum \<Rightarrow> jsnum" where
  "jdiv (Fin a) (Fin b) =
     (if b = 0 then (if a = 0 then NaN else if 0 < a then PInf else NInf) else Fin (a / b))"
| "jdiv NaN _ = NaN"
| "jdiv _ NaN = NaN"
| "jdiv (Fin a) PInf = Fin 0"
| "jdiv (Fin a) NInf = Fin 0"
| "jdiv PInf (Fin b) = (if 0 \<le> b then PInf else NInf)"
| "jdiv NInf (Fin b) = (if 0 \<le> b then NInf else PInf)"
| "jdiv PInf PInf = NaN"
| "jdiv PInf NInf = NaN"
| "jdiv NInf PInf = NaN"
| "jdiv NInf NInf = NaN"

text \<open>\<open>Math.sqrt\<close>.\<close>

fun jsqrt :: "jsnum \<Rightarrow> jsnum" where
  "jsqrt (Fin a) = (if a < 0 then NaN else Fin (sqrt a))"
| "jsqrt PInf = PInf"
| "jsqrt NInf = NaN"
| "jsqrt NaN = NaN"

text \<open>The comparison \<open>a <= b\<close>: false as soon as one side is NaN.\<close>

fun jle :: "jsnum \<Rightarrow> jsnum \<Rightarrow> bool" where
  "jle (Fin a) (Fin b) = (a \<le> b)"
| "jle NaN _ = False"
| "jle _ NaN = False"
| "jle NInf _ = True"
| "jle _ PInf = True"
| "jle PInf _ = False"
| "jle _ NInf = False"

text \<open>Strict equality \<open>a === b\<close>: NaN is not equal to itself.\<close>

fun jeq :: "jsnum \<Rightarrow> jsnum \<Rightarrow> bool" where
  "jeq NaN _ = False"
| "jeq _ NaN = False"
| "jeq a b = (a = b)"

text \<open>\<open>Number.isNaN\<close>.\<close>

fun isNaN :: "jsnum \<Rightarrow> bool" where
  "isNaN NaN = True"
| "isNaN _ = False"

text \<open>Truthiness of a number in a condition: 0 and NaN are falsy.\<close>

fun truthy :: "jsnum \<Rightarrow> bool" where
  "truthy (Fin a) = (a \<noteq> 0)"
| "truthy NaN = False"
| "truthy _ = True"



section \<open>Vectors\<close>

text \<open>
  Babylon.js \<open>Vector3\<close>, by value. The methods used by the spring bones are \<open>add\<close>,
  \<open>subtract\<close>, \<open>scale\<close>, \<open>lengthSquared\<close>, \<open>length\<close> and \<open>normalize\<close>; the latter
  returns its argument unchanged when its length is 0 or 1 and scales by \<open>1 / length\<close>
  otherwise.
\<close>

datatype Vector3 = Vector3 (vx: jsnum) (vy: jsnum) (vz: jsnum)

definition Zero :: Vector3 where
  "Zero = Vector3 (Fin 0) (Fin 0) (Fin 0)"

definition vadd :: "Vector3 \<Rightarrow> Vector3 \<Rightarrow> Vector3" where
  "vadd a b = Vector3 (jadd (vx a) (vx b)) (jadd (vy a) (vy b)) (jadd (vz a) (vz b))"

definition vsubtract :: "Vector3 \<Rightarrow> Vector3 \<Rightarrow> Vector3" where
  "vsubtract a b = Vector3 (jsub (vx a) (vx b)) (jsub (vy a) (vy b)) (jsub (vz a) (vz b))"

definition vscale :: "Vector3 \<Rightarrow> jsnum \<Rightarrow> Vector3" where
  "vscale a s = Vector3 (jmul (vx a) s) (jmul (vy a) s) (jmul (vz a) s)"

definition vlengthSquared :: "Vector3 \<Rightarrow> jsnum" where
  "vlengthSquared a =
     jadd (jadd (jmul (vx a) (vx a)) (jmul (vy a) (vy a))) (jmul (vz a) (vz a))"

definition vlength :: "Vector3 \<Rightarrow> jsnum" where
  "vlength a = jsqrt (vlengthSquared a)"

definition vnormalize :: "Vector3 \<Rightarrow> Vector3" where
  "vnormalize a =
     (let len = vlength a
      in if jeq len (Fin 0) \<or> jeq len (Fin 1) then a else vscale a (jdiv (Fin 1) len))"

text \<open>
  Modelled from the spec: \<open>Vector3Helper.multiplyByFloat\<close> (vector3-helper.ts is not among
  the sources). The update scales a vector by a number with it ("scale by
  \<open>stiffnessForce\<close>"); it returns a new vector. The second revision of the class calls
  \<open>scale\<close> and \<open>scaleInPlace\<close> of \<open>Vector3\<close> in the same places.
\<close>

definition multiplyByFloat :: "Vector3 \<Rightarrow> jsnum \<Rightarrow> Vector3" where
  "multiplyByFloat v n = Vector3 (jmul (vx v) n) (jmul (vy v) n) (jmul (vz v) n)"

section \<open>The scene graph and the quaternion library\<close>

text \<open>
  A scene-graph node (Babylon.js \<open>TransformNode\<close>) is owned by the scene, not by the
  spring bones. The fields are those the spring bones read or write: the world position
  (\<open>absolutePosition\<close>, \<open>getAbsolutePosition()\<close>), the local position, the Euler rotation,
  the nullable \<open>rotationQuaternion\<close>, the parent link and the world matrix. Nodes are
  referred to by identity, so a scene is a store from node identities to node records.
  World positions and world matrices are computed by the engine; the model takes the
  values the engine holds when a method runs.
\<close>

type_synonym node_id = nat

record ('q, 'm) TransformNode =
  absolutePosition :: Vector3
  position :: Vector3
  rotation :: Vector3
  rotationQuaternion :: "'q option"
  parent :: "node_id option"
  worldMatrix :: 'm

type_synonym ('q, 'm) scene = "node_id \<Rightarrow> ('q, 'm) TransformNode"

text \<open>
  Quaternions (\<open>'q\<close>) and matrices (\<open>'m\<close>) are values of the engine's maths library.
  Their operations are external to this repository, apart from \<open>QuaternionHelper\<close>
  (quaternion-helper.ts, not among the sources); all of them are taken as parameters:
  \<^item> \<open>toQuaternion\<close>: \<open>Vector3.toQuaternion()\<close>, from Euler angles;
  \<^item> \<open>qIdentity\<close>, \<open>qmultiply\<close>, \<open>qInverse\<close>: \<open>Quaternion.Identity()\<close>,
    \<open>a.multiply(b)\<close>, \<open>Quaternion.Inverse(a)\<close>;
  \<^item> \<open>rotateByQuaternion\<close>: \<open>v.rotateByQuaternionToRef(q, result)\<close>;
  \<^item> \<open>toEulerAngles\<close>: \<open>q.toEulerAnglesToRef(result)\<close>;
  \<^item> \<open>decomposeRotation\<close>: the rotation that \<open>m.decompose(scale, rotation, position)\<close>
    stores;
  \<^item> \<open>FromRotationMatrix\<close>: \<open>Quaternion.FromRotationMatrix(m.getRotationMatrix())\<close>;
  \<^item> \<open>withRotation\<close>: \<open>m.decompose\<close> for scaling and position followed by
    \<open>Matrix.ComposeToRef\<close> with a new rotation;
  \<^item> \<open>minvert\<close>, \<open>mmultiply\<close>: \<open>m.invertToRef\<close>, \<open>a.multiplyToRef(b, result)\<close>;
  \<^item> \<open>multiplyWithVector3\<close>, \<open>fromToRotation\<close>: the two functions of
    \<open>QuaternionHelper\<close> (rotate a vector by a quaternion; the rotation from one
    direction to another).
\<close>

record ('q, 'm) mathlib =
  toQuaternion :: "Vector3 \<Rightarrow> 'q"
  qIdentity :: 'q
  qmultiply :: "'q \<Rightarrow> 'q \<Rightarrow> 'q"
  qInverse :: "'q \<Rightarrow> 'q"
  rotateByQuaternion :: "Vector3 \<Rightarrow> 'q \<Rightarrow> Vector3"
  toEulerAngles :: "'q \<Rightarrow> Vector3"
  decomposeRotation :: "'m \<Rightarrow> 'q"
  FromRotationMatrix :: "'m \<Rightarrow> 'q"
  withRotation :: "'m \<Rightarrow> 'q \<Rightarrow> 'm"
  minvert :: "'m \<Rightarrow> 'm"
  mmultiply :: "'m \<Rightarrow> 'm \<Rightarrow> 'm"
  multiplyWithVector3 :: "'q \<Rightarrow> Vector3 \<Rightarrow> Vector3"
  fromToRotation :: "Vector3 \<Rightarrow> Vector3 \<Rightarrow> 'q"

text \<open>A sphere collider as the update receives it: a position and a radius.\<close>

datatype SphereCollider = SphereCollider (collider_position: Vector3) (collider_radius: jsnum)

text \<open>Dereferencing \<open>null\<close> raises a \<open>TypeError\<close>.\<close>

datatype error = TypeError

section \<open>VRMSpringBoneLogic (secondary-animation/vrm-spring-bone-logic.ts)\<close>

record 'q VRMSpringBoneLogic =
  radius :: jsnum
  transform :: node_id
  localRotation :: 'q
  boneAxis :: Vector3
  boneLength :: jsnum
  centerAbsolutePos :: Vector3
  currentTail :: Vector3
  prevTail :: Vector3

text \<open>
  \<open>centerAbsolutePos\<close> always holds a \<open>Vector3\<close> object, so the test
  \<open>if (this.centerAbsolutePos)\<close> of the two translation helpers always succeeds.
\<close>

definition getCenterTranslatedWorldPos ::
  "('q, 'z) VRMSpringBoneLogic_scheme \<Rightarrow> Vector3 \<Rightarrow> Vector3" where
  "getCenterTranslatedWorldPos this pos = vadd (centerAbsolutePos this) pos"

definition getCenterTranslatedPos ::
  "('q, 'z) VRMSpringBoneLogic_scheme \<Rightarrow> Vector3 \<Rightarrow> Vector3" where
  "getCenterTranslatedPos this pos = vsubtract pos (centerAbsolutePos this)"

text \<open>
  The first lines of the constructor, shared by both revisions of the class: they give
  the node, and its parent when it has one, a rotation quaternion.
\<close>

definition initRotationQuaternions ::
  "('q, 'm) mathlib \<Rightarrow> node_id \<Rightarrow> ('q, 'm) scene \<Rightarrow> ('q, 'm) scene" where
  "initRotationQuaternions lib t sc =
     (let sc1 = (if rotationQuaternion (sc t) = None
                 then sc(t := (sc t)\<lparr>rotationQuaternion :=
                                       Some (toQuaternion lib (rotation (sc t)))\<rparr>)
                 else sc)
      in case parent (sc1 t) of
           None \<Rightarrow> sc1
         | Some p \<Rightarrow>
             if rotationQuaternion (sc1 p) = None
             then sc1(p := (sc1 p)\<lparr>rotationQuaternion :=
                                     Some (toQuaternion lib (rotation (sc1 p)))\<rparr>)
             else sc1)"

definition "constructor" ::
  "('q, 'm) mathlib \<Rightarrow> node_id option \<Rightarrow> jsnum \<Rightarrow> node_id \<Rightarrow> Vector3 \<Rightarrow> ('q, 'm) scene
     \<Rightarrow> error + ('q VRMSpringBoneLogic \<times> ('q, 'm) scene)" where
  "constructor lib center rad t localChildPosition sc =
     (let sc' = initRotationQuaternions lib t sc;
          worldChildPosition = vadd (absolutePosition (sc' t)) localChildPosition;
          cap = (case center of Some c \<Rightarrow> absolutePosition (sc' c) | None \<Rightarrow> Zero);
          tail = vsubtract worldChildPosition cap
      in case rotationQuaternion (sc' t) of
           None \<Rightarrow> Inl TypeError
         | Some q \<Rightarrow>
             Inr (\<lparr>radius = rad, transform = t, localRotation = q,
                   boneAxis = vnormalize localChildPosition,
                   boneLength = vlength localChildPosition,
                   centerAbsolutePos = cap, currentTail = tail, prevTail = tail\<rparr>, sc'))"

definition getAbsoluteRotationQuaternion ::
  "('q, 'm) mathlib \<Rightarrow> ('q, 'm) scene \<Rightarrow> node_id option \<Rightarrow> 'q" where
  "getAbsoluteRotationQuaternion lib sc node =
     (case node of None \<Rightarrow> qIdentity lib
      | Some n \<Rightarrow> decomposeRotation lib (worldMatrix (sc n)))"

definition setAbsoluteRotationQuaternion ::
  "('q, 'm) mathlib \<Rightarrow> node_id \<Rightarrow> 'q \<Rightarrow> ('q, 'm) scene \<Rightarrow> ('q, 'm) scene" where
  "setAbsoluteRotationQuaternion lib node quatRotation sc =
     (case parent (sc node) of
        Some p \<Rightarrow>
          (let tempWorldMatrix = withRotation lib (worldMatrix (sc node)) quatRotation;
               invParentMatrix = minvert lib (worldMatrix (sc p));
               diffMatrix = mmultiply lib tempWorldMatrix invParentMatrix;
               quatRotationNew = decomposeRotation lib diffMatrix
           in if rotationQuaternion (sc node) \<noteq> None
              then sc(node := (sc node)\<lparr>rotationQuaternion := Some quatRotationNew\<rparr>)
              else sc(node := (sc node)\<lparr>rotation := toEulerAngles lib quatRotationNew\<rparr>))
      | None \<Rightarrow> sc(node := (sc node)\<lparr>rotationQuaternion := Some quatRotation\<rparr>))"

definition transformToRotation ::
  "('q, 'm) mathlib \<Rightarrow> 'q VRMSpringBoneLogic \<Rightarrow> ('q, 'm) scene \<Rightarrow> Vector3 \<Rightarrow> 'q" where
  "transformToRotation lib this sc nextTail =
     (let rot = qmultiply lib
                  (getAbsoluteRotationQuaternion lib sc (parent (sc (transform this))))
                  (localRotation this);
          fromAxis = multiplyWithVector3 lib rot (boneAxis this);
          toAxis = vnormalize (vsubtract nextTail (absolutePosition (sc (transform this))));
          result = fromToRotation lib fromAxis toAxis
      in qmultiply lib result rot)"

text \<open>
  One iteration of the \<open>forEach\<close> of \<open>collide\<close>: the new value of \<open>nextTail\<close> after the
  collider has been looked at.
\<close>

definition collide_step ::
  "'q VRMSpringBoneLogic \<Rightarrow> ('q, 'm) scene \<Rightarrow> Vector3 \<Rightarrow> SphereCollider \<Rightarrow> Vector3" where
  "collide_step this sc nextTail collider =
     (let r = jadd (radius this) (collider_radius collider);
          axis = vsubtract nextTail (collider_position collider)
      in if jle (vlengthSquared axis) (jsub (jmul r r) (Fin (2 / 100)))
         then (let posFromCollider =
                     vadd (collider_position collider) (multiplyByFloat (vnormalize axis) r);
                   absPos = absolutePosition (sc (transform this))
               in vadd absPos
                    (multiplyByFloat (vnormalize (vsubtract posFromCollider absPos))
                       (boneLength this)))
         else nextTail)"

fun collide ::
  "'q VRMSpringBoneLogic \<Rightarrow> ('q, 'm) scene \<Rightarrow> SphereCollider list \<Rightarrow> Vector3 \<Rightarrow> Vector3" where
  "collide this sc [] nextTail = nextTail"
| "collide this sc (collider # colliders) nextTail =
     collide this sc colliders (collide_step this sc nextTail collider)"

text \<open>
  \<open>update\<close>. The two locals \<open>currentTail\<close> and \<open>nextTail\<close> name one \<open>Vector3\<close> object
  (\<open>let nextTail = currentTail\<close> copies the reference) until \<open>nextTail\<close> is assigned the
  vector of the length constraint, and \<open>addInPlace\<close> writes into that object. The locals
  are therefore modelled as references into a small store of vectors: \<open>currentTailRef\<close>
  and \<open>prevTailRef\<close> are the objects returned by the two calls of
  \<open>getCenterTranslatedWorldPos\<close>.
\<close>

type_synonym locals = "nat \<Rightarrow> Vector3"

definition addInPlace :: "locals \<Rightarrow> nat \<Rightarrow> Vector3 \<Rightarrow> locals" where
  "addInPlace h r v = h(r := vadd (h r) v)"

definition update ::
  "('q, 'm) mathlib \<Rightarrow> node_id option \<Rightarrow> jsnum \<Rightarrow> jsnum \<Rightarrow> Vector3 \<Rightarrow> SphereCollider list
     \<Rightarrow> 'q VRMSpringBoneLogic \<times> ('q, 'm) scene \<Rightarrow> 'q VRMSpringBoneLogic \<times> ('q, 'm) scene" where
  "update lib center stiffnessForce dragForce external colliders s =
     (let this0 = fst s; sc = snd s;
          absPos = absolutePosition (sc (transform this0))
      in if isNaN (vx absPos) then (this0, sc)
         else
          (let this1 = this0\<lparr>centerAbsolutePos :=
                         (case center of Some c \<Rightarrow> absolutePosition (sc c) | None \<Rightarrow> Zero)\<rparr>;
               currentTailRef = (0::nat);
               prevTailRef = (1::nat);
               h0 = (\<lambda>_. Zero)
                      (currentTailRef := getCenterTranslatedWorldPos this1 (currentTail this1),
                       prevTailRef := getCenterTranslatedWorldPos this1 (prevTail this1));
               nextTailRef = currentTailRef;
               attenuation = jsub (Fin 1) dragForce;
               delta = multiplyByFloat (vsubtract (h0 currentTailRef) (h0 prevTailRef))
                         attenuation;
               h1 = addInPlace h0 nextTailRef delta;
               rot = qmultiply lib
                       (getAbsoluteRotationQuaternion lib sc (parent (sc (transform this1))))
                       (localRotation this1);
               rotatedVec = multiplyWithVector3 lib rot (boneAxis this1);
               stiffedVec = multiplyByFloat rotatedVec stiffnessForce;
               h2 = addInPlace h1 nextTailRef stiffedVec;
               h3 = addInPlace h2 nextTailRef external;
               normalized = vnormalize (vsubtract (h3 nextTailRef) absPos);
               nextTail = vadd absPos (multiplyByFloat normalized (boneLength this1));
               nextTail' = collide this1 sc colliders nextTail;
               this2 = this1\<lparr>prevTail := getCenterTranslatedPos this1 (h3 currentTailRef)\<rparr>;
               this3 = this2\<lparr>currentTail := getCenterTranslatedPos this2 nextTail'\<rparr>
           in (this3,
               setAbsoluteRotationQuaternion lib (transform this3)
                 (transformToRotation lib this3 sc nextTail') sc)))"

section \<open>VRMSpringBoneLogic, second revision (src/unnamed/part_002)\<close>

text \<open>
  The second revision of the class keeps the constructor arguments \<open>center\<close> and
  \<open>localChildPosition\<close> as fields and adds the cached positions and the parent's world
  rotation. Its tails are kept in the space of the center node, and it does not translate
  them back and forth.
\<close>

record 'q VRMSpringBoneLogic2 = "'q VRMSpringBoneLogic" +
  center :: "node_id option"
  localChildPosition :: Vector3
  localPosition :: Vector3
  centerSpacePosition :: Vector3
  parentAbsolutePos :: Vector3
  worldParentQuaternion :: 'q

definition mirrorY :: "Vector3 \<Rightarrow> Vector3" where
  "mirrorY v = Vector3 (vx v) (jneg (vy v)) (vz v)"

text \<open>
  \<open>localToWorld\<close> as \<open>init\<close> calls it: with the parent's world rotation \<open>wpq\<close> stored
  just before and the node's rotation quaternion \<open>rq\<close>.
\<close>

definition localToWorld ::
  "('q, 'm) mathlib \<Rightarrow> 'q \<Rightarrow> 'q \<Rightarrow> Vector3 \<Rightarrow> Vector3 \<Rightarrow> Vector3" where
  "localToWorld lib wpq rq absPos pos =
     vadd (rotateByQuaternion lib pos (qmultiply lib wpq rq)) absPos"

definition init2 ::
  "('q, 'm) mathlib \<Rightarrow> node_id option \<Rightarrow> jsnum \<Rightarrow> node_id \<Rightarrow> Vector3 \<Rightarrow> ('q, 'm) scene
     \<Rightarrow> error + 'q VRMSpringBoneLogic2" where
  "init2 lib cen rad t lcp sc =
     (let cap = (case cen of Some c \<Rightarrow> absolutePosition (sc c) | None \<Rightarrow> Zero);
          csp = vsubtract (absolutePosition (sc t)) cap;
          pap = (case parent (sc t) of Some p \<Rightarrow> absolutePosition (sc p) | None \<Rightarrow> Zero);
          wpq = qIdentity lib;
          lp = mirrorY (position (sc t))
      in case rotationQuaternion (sc t) of
           None \<Rightarrow> Inl TypeError
         | Some rq \<Rightarrow>
             (let tail = vsubtract (localToWorld lib wpq rq (absolutePosition (sc t)) lcp) cap
              in Inr \<lparr>radius = rad, transform = t, localRotation = rq,
                      boneAxis = vnormalize lcp, boneLength = vlength lcp,
                      centerAbsolutePos = cap, currentTail = tail, prevTail = tail,
                      center = cen, localChildPosition = lcp, localPosition = lp,
                      centerSpacePosition = csp, parentAbsolutePos = pap,
                      worldParentQuaternion = wpq\<rparr>))"

definition constructor2 ::
  "('q, 'm) mathlib \<Rightarrow> node_id option \<Rightarrow> jsnum \<Rightarrow> node_id \<Rightarrow> Vector3 \<Rightarrow> ('q, 'm) scene
     \<Rightarrow> error + ('q VRMSpringBoneLogic2 \<times> ('q, 'm) scene)" where
  "constructor2 lib cen rad t lcp sc =
     (let sc' = initRotationQuaternions lib t sc
      in case init2 lib cen rad t lcp sc' of
           Inl e \<Rightarrow> Inl e
         | Inr this \<Rightarrow> Inr (this, sc'))"

definition transformToRotationLocal ::
  "('q, 'm) mathlib \<Rightarrow> 'q VRMSpringBoneLogic2 \<Rightarrow> Vector3 \<Rightarrow> 'q" where
  "transformToRotationLocal lib this nextTail =
     (let initialCenterSpaceQuaternionR1 = qInverse lib (localRotation this);
          initialCenterSpaceQuaternionR2 = qInverse lib (worldParentQuaternion this);
          fromAxis = boneAxis this;
          toAxis = rotateByQuaternion lib
                     (vsubtract (vadd nextTail (centerAbsolutePos this)) (parentAbsolutePos this))
                     initialCenterSpaceQuaternionR2;
          toAxis' = rotateByQuaternion lib (vsubtract toAxis (localPosition this))
                      initialCenterSpaceQuaternionR1
      in fromToRotation lib fromAxis (vnormalize toAxis'))"

text \<open>
  The position the second revision tests a collider at: the collider's position, taken
  into the space of the center and then moved by the node's own center-space position.
\<close>

definition colliderCenterSpacePosition ::
  "'q VRMSpringBoneLogic2 \<Rightarrow> SphereCollider \<Rightarrow> Vector3" where
  "colliderCenterSpacePosition this collider =
     vadd (vsubtract (collider_position collider) (centerAbsolutePos this))
       (centerSpacePosition this)"

definition collide_step2 ::
  "'q VRMSpringBoneLogic2 \<Rightarrow> Vector3 \<Rightarrow> SphereCollider \<Rightarrow> Vector3" where
  "collide_step2 this nextTail collider =
     (let ccsp = colliderCenterSpacePosition this collider;
          r = jadd (radius this) (collider_radius collider);
          axis = vsubtract nextTail ccsp
      in if jle (vlengthSquared axis) (jsub (jmul r r) (Fin (2 / 100)))
         then (let posFromCollider = vadd ccsp (vscale (vnormalize axis) r)
               in vadd
                    (vscale (vnormalize (vsubtract posFromCollider (centerSpacePosition this)))
                       (boneLength this))
                    (centerSpacePosition this))
         else nextTail)"

fun collide2 :: "'q VRMSpringBoneLogic2 \<Rightarrow> SphereCollider list \<Rightarrow> Vector3 \<Rightarrow> Vector3" where
  "collide2 this [] nextTail = nextTail"
| "collide2 this (collider # colliders) nextTail =
     collide2 this colliders (collide_step2 this nextTail collider)"

text \<open>
  \<open>update\<close> of the second revision. Here \<open>nextTail\<close> starts as a clone of
  \<open>this.currentTail\<close>, so the in-place additions do not reach the vector that becomes
  \<open>prevTail\<close>; plain values model it.
\<close>

definition update2 ::
  "('q, 'm) mathlib \<Rightarrow> node_id option \<Rightarrow> jsnum \<Rightarrow> jsnum \<Rightarrow> Vector3 \<Rightarrow> SphereCollider list
     \<Rightarrow> 'q VRMSpringBoneLogic2 \<times> ('q, 'm) scene
     \<Rightarrow> 'q VRMSpringBoneLogic2 \<times> ('q, 'm) scene" where
  "update2 lib cen stiffnessForce dragForce external colliders s =
     (let this0 = fst s; sc = snd s;
          absPos = absolutePosition (sc (transform this0))
      in if isNaN (vx absPos) then (this0, sc)
         else
          (let this1 = (case cen of
                          Some c \<Rightarrow> this0\<lparr>centerAbsolutePos := absolutePosition (sc c)\<rparr>
                        | None \<Rightarrow> this0);
               this2 = this1\<lparr>centerSpacePosition := vsubtract absPos (centerAbsolutePos this1)\<rparr>;
               this3 = this2\<lparr>parentAbsolutePos :=
                         (case parent (sc (transform this2)) of
                            Some p \<Rightarrow> absolutePosition (sc p) | None \<Rightarrow> Zero)\<rparr>;
               this4 = this3\<lparr>worldParentQuaternion :=
                         (case parent (sc (transform this3)) of
                            Some p \<Rightarrow> FromRotationMatrix lib (worldMatrix (sc p))
                          | None \<Rightarrow> qIdentity lib)\<rparr>;
               currentTail0 = currentTail this4;
               prevTail0 = prevTail this4;
               delta = vscale (vsubtract currentTail0 prevTail0) (jsub (Fin 1) dragForce);
               nextTail1 = vadd (currentTail this4) delta;
               rotation1 = localRotation this4;
               rotation2 = worldParentQuaternion this4;
               rotatedVec1 = vadd (rotateByQuaternion lib (boneAxis this4) rotation1)
                               (localPosition this4);
               rotatedVec2 = rotateByQuaternion lib rotatedVec1 rotation2;
               rotatedVec3 = vnormalize
                               (vsubtract (vadd rotatedVec2 (parentAbsolutePos this4)) absPos);
               stiffedVec = vscale rotatedVec3 stiffnessForce;
               nextTail2 = vadd nextTail1 stiffedVec;
               nextTail3 = vadd nextTail2 external;
               diff = vscale (vnormalize (vsubtract nextTail3 (centerSpacePosition this4)))
                        (boneLength this4);
               nextTail4 = vadd (centerSpacePosition this4) diff;
               nextTail5 = collide2 this4 colliders nextTail4;
               this5 = this4\<lparr>prevTail := currentTail0\<rparr>;
               this6 = this5\<lparr>currentTail := nextTail5\<rparr>;
               r = transformToRotationLocal lib this6 nextTail5
           in (this6,
               sc(transform this6 := (sc (transform this6))
                    \<lparr>rotationQuaternion := Some (qmultiply lib (localRotation this6) r)\<rparr>))))"

section \<open>SpringBoneController (secondary-animation/spring-bone-controller.ts)\<close>

text \<open>
  The configuration \<open>IVRMSecondaryAnimation\<close> (its declaration, vrm-interfaces.ts, is not
  among the sources; the fields are those the controller reads). Node indices are
  numbers of the asset; \<open>boneGroups\<close>, \<open>colliderGroups\<close> and the \<open>bones\<close> and
  \<open>colliderGroups\<close> of a bone group may be absent.
\<close>

datatype ColliderConfig = ColliderConfig (cfg_offset: Vector3) (cfg_radius: jsnum)

datatype ColliderGroupConfig =
  ColliderGroupConfig (cfg_node: int) (cfg_colliders: "ColliderConfig list")

record BoneGroupConfig =
  cfg_comment :: string
  cfg_stiffiness :: jsnum
  cfg_gravityPower :: jsnum
  cfg_gravityDir :: Vector3
  cfg_dragForce :: jsnum
  cfg_center :: int
  cfg_hitRadius :: jsnum
  cfg_bones :: "int list option"
  cfg_colliderGroups :: "int list option"

record IVRMSecondaryAnimation =
  ext_boneGroups :: "BoneGroupConfig list option"
  ext_colliderGroups :: "ColliderGroupConfig list option"

text \<open>\<open>ConstructSpringsOptions\<close>: every field is optional.\<close>

record ConstructSpringsOptions =
  opt_stiffness :: "jsnum option"
  opt_gravityPower :: "jsnum option"
  opt_gravityDir :: "Vector3 option"
  opt_dragForce :: "jsnum option"
  opt_hitRadius :: "jsnum option"

text \<open>The resolver \<open>getBone\<close>: from a node index to a node, or \<open>null\<close>.\<close>

type_synonym getBone = "int \<Rightarrow> node_id option"

text \<open>
  The arguments of \<open>new VRMSpringBone(...)\<close>, in the order of the call. \<open>'g\<close> is the
  type of collider groups; an entry of \<open>arg_colliderGroups\<close> is \<open>None\<close> where
  \<open>colliderGroups[g]\<close> is \<open>undefined\<close>.
\<close>

record 'g VRMSpringBoneArgs =
  arg_comment :: string
  arg_stiffness :: jsnum
  arg_gravityPower :: jsnum
  arg_gravityDir :: Vector3
  arg_dragForce :: jsnum
  arg_center :: "node_id option"
  arg_hitRadius :: jsnum
  arg_bones :: "node_id option list"
  arg_colliderGroups :: "'g option list"

text \<open>
  The classes \<open>ColliderGroup\<close> and \<open>VRMSpringBone\<close> (collider-group.ts and
  vrm-spring-bone.ts) are not among the sources. The controller is modelled over any
  behaviour of their constructors and methods, which may raise an error:
  \<open>newColliderGroup\<close> is \<open>new ColliderGroup(bone)\<close>, \<open>addCollider\<close> the method of that
  name (it returns the group after the call), \<open>newVRMSpringBone\<close> is
  \<open>new VRMSpringBone(...)\<close>, and \<open>springUpdate\<close> is \<open>spring.update(deltaTime,
  boneOptions)\<close>, which changes the spring and the world \<open>'w\<close> around it.
\<close>

record ('g, 's, 'w) classes =
  newColliderGroup :: "node_id option \<Rightarrow> error + 'g"
  addCollider :: "'g \<Rightarrow> Vector3 \<Rightarrow> jsnum \<Rightarrow> error + 'g"
  newVRMSpringBone :: "'g VRMSpringBoneArgs \<Rightarrow> error + 's"
  springUpdate :: "jsnum \<Rightarrow> ConstructSpringsOptions option \<Rightarrow> 's \<times> 'w \<Rightarrow> 's \<times> 'w"

text \<open>An error ends the loop it is raised in, and the method with it.\<close>

fun forEachE :: "('a \<Rightarrow> 'b \<Rightarrow> error + 'b) \<Rightarrow> 'a list \<Rightarrow> 'b \<Rightarrow> error + 'b" where
  "forEachE f [] acc = Inr acc"
| "forEachE f (x # xs) acc =
     (case f x acc of Inl e \<Rightarrow> Inl e | Inr acc' \<Rightarrow> forEachE f xs acc')"

text \<open>The body of the outer \<open>forEach\<close> of \<open>constructColliderGroups\<close>.\<close>

definition constructColliderGroup ::
  "('g, 's, 'w) classes \<Rightarrow> getBone \<Rightarrow> ColliderGroupConfig \<Rightarrow> error + 'g" where
  "constructColliderGroup cls getBone colliderGroup =
     (let bone = getBone (cfg_node colliderGroup)
      in case newColliderGroup cls bone of
           Inl e \<Rightarrow> Inl e
         | Inr g \<Rightarrow>
             forEachE (\<lambda>collider g'.
                 addCollider cls g'
                   (Vector3 (jneg (vx (cfg_offset collider))) (vy (cfg_offset collider))
                      (jneg (vz (cfg_offset collider))))
                   (cfg_radius collider))
               (cfg_colliders colliderGroup) g)"

definition constructColliderGroups ::
  "('g, 's, 'w) classes \<Rightarrow> IVRMSecondaryAnimation \<Rightarrow> getBone \<Rightarrow> error + 'g list" where
  "constructColliderGroups cls ext getBone =
     (case ext_colliderGroups ext of
        None \<Rightarrow> Inr []
      | Some cgs \<Rightarrow>
          if cgs = [] then Inr []
          else forEachE (\<lambda>colliderGroup colliderGroups.
                   case constructColliderGroup cls getBone colliderGroup of
                     Inl e \<Rightarrow> Inl e
                   | Inr g \<Rightarrow> Inr (colliderGroups @ [g]))
                 cgs [])"

text \<open>\<open>colliderGroups[g]\<close>: \<open>undefined\<close> outside the array.\<close>

definition index :: "'a list \<Rightarrow> int \<Rightarrow> 'a option" where
  "index xs i = (if 0 \<le> i \<and> i < int (length xs) then Some (xs ! nat i) else None)"

text \<open>
  \<open>options?.field ? options.field : authored\<close> for a number: the override is taken when
  it is there and truthy.
\<close>

definition overrideNumber ::
  "ConstructSpringsOptions option \<Rightarrow> (ConstructSpringsOptions \<Rightarrow> jsnum option) \<Rightarrow> jsnum
     \<Rightarrow> jsnum" where
  "overrideNumber options field authored =
     (case options of
        None \<Rightarrow> authored
      | Some opts \<Rightarrow>
          (case field opts of
             None \<Rightarrow> authored
           | Some v \<Rightarrow> if truthy v then v else authored))"

text \<open>The same for \<open>gravityDir\<close>: a vector is an object, and every object is truthy.\<close>

definition overrideVector ::
  "ConstructSpringsOptions option \<Rightarrow> (ConstructSpringsOptions \<Rightarrow> Vector3 option) \<Rightarrow> Vector3
     \<Rightarrow> Vector3" where
  "overrideVector options field authored =
     (case options of
        None \<Rightarrow> authored
      | Some opts \<Rightarrow> (case field opts of None \<Rightarrow> authored | Some v \<Rightarrow> v))"

text \<open>The arguments that \<open>constructSprings\<close> passes for one bone group.\<close>

definition springArgs ::
  "getBone \<Rightarrow> 'g list \<Rightarrow> ConstructSpringsOptions option \<Rightarrow> BoneGroupConfig
     \<Rightarrow> 'g VRMSpringBoneArgs" where
  "springArgs getBone colliderGroups options spring =
     (let rootBones = map getBone (case cfg_bones spring of Some bs \<Rightarrow> bs | None \<Rightarrow> []);
          springColliders = map (index colliderGroups)
                              (case cfg_colliderGroups spring of Some gs \<Rightarrow> gs | None \<Rightarrow> [])
      in \<lparr>arg_comment = cfg_comment spring,
          arg_stiffness = overrideNumber options opt_stiffness (cfg_stiffiness spring),
          arg_gravityPower = overrideNumber options opt_gravityPower (cfg_gravityPower spring),
          arg_gravityDir = overrideVector options opt_gravityDir
             (vnormalize (Vector3 (jneg (vx (cfg_gravityDir spring))) (vy (cfg_gravityDir spring))
                            (jneg (vz (cfg_gravityDir spring))))),
          arg_dragForce = overrideNumber options opt_dragForce (cfg_dragForce spring),
          arg_center = getBone (cfg_center spring),
          arg_hitRadius = overrideNumber options opt_hitRadius (cfg_hitRadius spring),
          arg_bones = rootBones,
          arg_colliderGroups = springColliders\<rparr>)"

definition constructSprings ::
  "('g, 's, 'w) classes \<Rightarrow> IVRMSecondaryAnimation \<Rightarrow> getBone \<Rightarrow> 'g list
     \<Rightarrow> ConstructSpringsOptions option \<Rightarrow> error + 's list" where
  "constructSprings cls ext getBone colliderGroups options =
     (case ext_boneGroups ext of
        None \<Rightarrow> Inr []
      | Some bgs \<Rightarrow>
          if bgs = [] then Inr []
          else forEachE (\<lambda>spring springs.
                   case newVRMSpringBone cls (springArgs getBone colliderGroups options spring) of
                     Inl e \<Rightarrow> Inl e
                   | Inr s \<Rightarrow> Inr (springs @ [s]))
                 bgs [])"

text \<open>The controller's own state is the list of springs.\<close>

definition SpringBoneController ::
  "('g, 's, 'w) classes \<Rightarrow> IVRMSecondaryAnimation \<Rightarrow> getBone
     \<Rightarrow> ConstructSpringsOptions option \<Rightarrow> error + 's list" where
  "SpringBoneController cls ext getBone options =
     (case constructColliderGroups cls ext getBone of
        Inl e \<Rightarrow> Inl e
      | Inr colliderGroups \<Rightarrow> constructSprings cls ext getBone colliderGroups options)"




section \<open>Notions used in the statements\<close>

subsection \<open>Finite values\<close>

text \<open>A vector with three finite components.\<close>

definition V3 :: "real \<Rightarrow> real \<Rightarrow> real \<Rightarrow> Vector3" where
  "V3 a b c = Vector3 (Fin a) (Fin b) (Fin c)"

fun finiteNumber :: "jsnum \<Rightarrow> bool" where
  "finiteNumber (Fin _) = True"
| "finiteNumber _ = False"

definition finiteVector :: "Vector3 \<Rightarrow> bool" where
  "finiteVector v = (finiteNumber (vx v) \<and> finiteNumber (vy v) \<and> finiteNumber (vz v))"

definition finiteCollider :: "SphereCollider \<Rightarrow> bool" where
  "finiteCollider c = (finiteVector (collider_position c) \<and> finiteNumber (collider_radius c))"

subsection \<open>Intermediate values of \<open>update\<close>, first revision\<close>

text \<open>
  The object after the assignment to \<open>centerAbsolutePos\<close>; the vector that \<open>nextTail\<close>
  (and with it \<open>currentTail\<close>) names after the three additions, when the length
  constraint reads it; and the tail that the length constraint produces.
\<close>

definition refreshCenter ::
  "node_id option \<Rightarrow> ('q, 'm) scene \<Rightarrow> 'q VRMSpringBoneLogic \<Rightarrow> 'q VRMSpringBoneLogic" where
  "refreshCenter cen sc this =
     this\<lparr>centerAbsolutePos := (case cen of Some c \<Rightarrow> absolutePosition (sc c) | None \<Rightarrow> Zero)\<rparr>"

definition integrated ::
  "('q, 'm) mathlib \<Rightarrow> node_id option \<Rightarrow> jsnum \<Rightarrow> jsnum \<Rightarrow> Vector3
     \<Rightarrow> 'q VRMSpringBoneLogic \<times> ('q, 'm) scene \<Rightarrow> Vector3" where
  "integrated lib cen stiffnessForce dragForce external s =
     (let sc = snd s; this1 = refreshCenter cen sc (fst s);
          currentTailW = getCenterTranslatedWorldPos this1 (currentTail this1);
          prevTailW = getCenterTranslatedWorldPos this1 (prevTail this1);
          delta = multiplyByFloat (vsubtract currentTailW prevTailW) (jsub (Fin 1) dragForce);
          rot = qmultiply lib
                  (getAbsoluteRotationQuaternion lib sc (parent (sc (transform this1))))
                  (localRotation this1);
          stiffedVec = multiplyByFloat (multiplyWithVector3 lib rot (boneAxis this1))
                         stiffnessForce
      in vadd (vadd (vadd currentTailW delta) stiffedVec) external)"

definition constrained ::
  "('q, 'm) mathlib \<Rightarrow> node_id option \<Rightarrow> jsnum \<Rightarrow> jsnum \<Rightarrow> Vector3
     \<Rightarrow> 'q VRMSpringBoneLogic \<times> ('q, 'm) scene \<Rightarrow> Vector3" where
  "constrained lib cen stiffnessForce dragForce external s =
     (let absPos = absolutePosition (snd s (transform (fst s)))
      in vadd absPos
           (multiplyByFloat
              (vnormalize (vsubtract (integrated lib cen stiffnessForce dragForce external s) absPos))
              (boneLength (fst s))))"

text \<open>The test of \<open>collide\<close> and the point \<open>posFromCollider\<close> it pushes the tail to.\<close>

definition hit :: "'q VRMSpringBoneLogic \<Rightarrow> Vector3 \<Rightarrow> SphereCollider \<Rightarrow> bool" where
  "hit this nextTail collider =
     (let r = jadd (radius this) (collider_radius collider)
      in jle (vlengthSquared (vsubtract nextTail (collider_position collider)))
           (jsub (jmul r r) (Fin (2 / 100))))"

definition posFromCollider :: "'q VRMSpringBoneLogic \<Rightarrow> Vector3 \<Rightarrow> SphereCollider \<Rightarrow> Vector3" where
  "posFromCollider this nextTail collider =
     vadd (collider_position collider)
       (multiplyByFloat (vnormalize (vsubtract nextTail (collider_position collider)))
          (jadd (radius this) (collider_radius collider)))"

text \<open>
  No collider that is hit, in the course of \<open>collide\<close>, pushes the tail exactly onto the
  position of the node.
\<close>

fun pushOutAvoidsNode ::
  "'q VRMSpringBoneLogic \<Rightarrow> ('q, 'm) scene \<Rightarrow> SphereCollider list \<Rightarrow> Vector3 \<Rightarrow> bool" where
  "pushOutAvoidsNode this sc [] nextTail = True"
| "pushOutAvoidsNode this sc (collider # colliders) nextTail =
     ((hit this nextTail collider \<longrightarrow>
         posFromCollider this nextTail collider \<noteq> absolutePosition (sc (transform this))) \<and>
      pushOutAvoidsNode this sc colliders (collide_step this sc nextTail collider))"


subsection \<open>Intermediate values of \<open>update\<close>, second revision\<close>

text \<open>
  The object after the four cached fields have been refreshed; the value of \<open>nextTail\<close>
  when the length constraint reads it; and the tail that the length constraint produces.
\<close>

definition refreshed2 ::
  "('q, 'm) mathlib \<Rightarrow> node_id option \<Rightarrow> ('q, 'm) scene \<Rightarrow> 'q VRMSpringBoneLogic2
     \<Rightarrow> 'q VRMSpringBoneLogic2" where
  "refreshed2 lib cen sc this0 =
     (let absPos = absolutePosition (sc (transform this0));
          this1 = (case cen of
                     Some c \<Rightarrow> this0\<lparr>centerAbsolutePos := absolutePosition (sc c)\<rparr>
                   | None \<Rightarrow> this0);
          this2 = this1\<lparr>centerSpacePosition := vsubtract absPos (centerAbsolutePos this1)\<rparr>;
          this3 = this2\<lparr>parentAbsolutePos :=
                    (case parent (sc (transform this2)) of
                       Some p \<Rightarrow> absolutePosition (sc p) | None \<Rightarrow> Zero)\<rparr>
      in this3\<lparr>worldParentQuaternion :=
                  (case parent (sc (transform this3)) of
                     Some p \<Rightarrow> FromRotationMatrix lib (worldMatrix (sc p))
                   | None \<Rightarrow> qIdentity lib)\<rparr>)"

definition integrated2 ::
  "('q, 'm) mathlib \<Rightarrow> node_id option \<Rightarrow> jsnum \<Rightarrow> jsnum \<Rightarrow> Vector3
     \<Rightarrow> 'q VRMSpringBoneLogic2 \<times> ('q, 'm) scene \<Rightarrow> Vector3" where
  "integrated2 lib cen stiffnessForce dragForce external s =
     (let sc = snd s; this4 = refreshed2 lib cen sc (fst s);
          absPos = absolutePosition (sc (transform this4));
          delta = vscale (vsubtract (currentTail this4) (prevTail this4))
                    (jsub (Fin 1) dragForce);
          rotatedVec1 = vadd (rotateByQuaternion lib (boneAxis this4) (localRotation this4))
                          (localPosition this4);
          rotatedVec2 = rotateByQuaternion lib rotatedVec1 (worldParentQuaternion this4);
          rotatedVec3 = vnormalize
                          (vsubtract (vadd rotatedVec2 (parentAbsolutePos this4)) absPos);
          stiffedVec = vscale rotatedVec3 stiffnessForce
      in vadd (vadd (vadd (currentTail this4) delta) stiffedVec) external)"

definition constrained2 ::
  "('q, 'm) mathlib \<Rightarrow> node_id option \<Rightarrow> jsnum \<Rightarrow> jsnum \<Rightarrow> Vector3
     \<Rightarrow> 'q VRMSpringBoneLogic2 \<times> ('q, 'm) scene \<Rightarrow> Vector3" where
  "constrained2 lib cen stiffnessForce dragForce external s =
     (let this4 = refreshed2 lib cen (snd s) (fst s)
      in vadd (centerSpacePosition this4)
           (vscale
              (vnormalize (vsubtract (integrated2 lib cen stiffnessForce dragForce external s)
                             (centerSpacePosition this4)))
              (boneLength this4)))"

definition hit2 :: "'q VRMSpringBoneLogic2 \<Rightarrow> Vector3 \<Rightarrow> SphereCollider \<Rightarrow> bool" where
  "hit2 this nextTail collider =
     (let r = jadd (radius this) (collider_radius collider)
      in jle (vlengthSquared (vsubtract nextTail (colliderCenterSpacePosition this collider)))
           (jsub (jmul r r) (Fin (2 / 100))))"

definition posFromCollider2 ::
  "'q VRMSpringBoneLogic2 \<Rightarrow> Vector3 \<Rightarrow> SphereCollider \<Rightarrow> Vector3" where
  "posFromCollider2 this nextTail collider =
     vadd (colliderCenterSpacePosition this collider)
       (vscale (vnormalize (vsubtract nextTail (colliderCenterSpacePosition this collider)))
          (jadd (radius this) (collider_radius collider)))"

fun pushOutAvoidsNode2 ::
  "'q VRMSpringBoneLogic2 \<Rightarrow> SphereCollider list \<Rightarrow> Vector3 \<Rightarrow> bool" where
  "pushOutAvoidsNode2 this [] nextTail = True"
| "pushOutAvoidsNode2 this (collider # colliders) nextTail =
     ((hit2 this nextTail collider \<longrightarrow>
         posFromCollider2 this nextTail collider \<noteq> centerSpacePosition this) \<and>
      pushOutAvoidsNode2 this colliders (collide_step2 this nextTail collider))"

definition regularUpdate2 ::
  "('q, 'm) mathlib \<Rightarrow> node_id option \<Rightarrow> jsnum \<Rightarrow> jsnum \<Rightarrow> Vector3 \<Rightarrow> SphereCollider list
     \<Rightarrow> 'q VRMSpringBoneLogic2 \<times> ('q, 'm) scene \<Rightarrow> bool" where
  "regularUpdate2 lib cen stiffnessForce dragForce external colliders s =
     (let sc = snd s; this4 = refreshed2 lib cen sc (fst s);
          absPos = absolutePosition (sc (transform this4))
      in finiteVector absPos \<and> finiteVector (centerAbsolutePos this4) \<and>
         finiteVector (integrated2 lib cen stiffnessForce dragForce external s) \<and>
         integrated2 lib cen stiffnessForce dragForce external s \<noteq> centerSpacePosition this4 \<and>
         finiteNumber (boneLength this4) \<and> jle (Fin 0) (boneLength this4) \<and>
         finiteNumber (radius this4) \<and> list_all finiteCollider colliders \<and>
         pushOutAvoidsNode2 this4 colliders
           (constrained2 lib cen stiffnessForce dragForce external s))"

subsection \<open>Colliders clear of the node\<close>

text \<open>
  A condition on a collider alone under which it cannot push the tail onto the node: it
  is not centred on the node, and the node is not at distance \<open>radius + colliderRadius\<close>
  from it. In the second revision both are taken in the space of the center.
\<close>

definition clearOfNode :: "'q VRMSpringBoneLogic \<Rightarrow> Vector3 \<Rightarrow> SphereCollider \<Rightarrow> bool" where
  "clearOfNode this absPos c =
     (collider_position c \<noteq> absPos \<and>
      vlengthSquared (vsubtract absPos (collider_position c))
        \<noteq> jmul (jadd (radius this) (collider_radius c)) (jadd (radius this) (collider_radius c)))"

definition clearOfNode2 :: "'q VRMSpringBoneLogic2 \<Rightarrow> SphereCollider \<Rightarrow> bool" where
  "clearOfNode2 this c =
     (colliderCenterSpacePosition this c \<noteq> centerSpacePosition this \<and>
      vlengthSquared (vsubtract (centerSpacePosition this) (colliderCenterSpacePosition this c))
        \<noteq> jmul (jadd (radius this) (collider_radius c)) (jadd (radius this) (collider_radius c)))"

subsection \<open>The classes behind the controller, as the specification describes them\<close>

text \<open>
  Modelled from the spec: the class \<open>ColliderGroup\<close> (collider-group.ts is not among the
  sources). A collider group is an owner node reference and an ordered list of colliders,
  each a local offset and a radius; \<open>addCollider(offset, radius)\<close> appends one collider;
  there are no failure modes.
\<close>

record ColliderGroup =
  group_owner :: "node_id option"
  group_colliders :: "(Vector3 \<times> jsnum) list"

text \<open>
  Modelled from the spec: the class \<open>VRMSpringBone\<close> (vrm-spring-bone.ts is not among the
  sources). A chain holds its comment, its physical parameters, its optional center, its
  root bones and the collider groups it refers to, that is, the arguments of its
  constructor; nothing is said of a failure. Its update is left out (it does nothing
  here): no statement below that uses these classes depends on it.
\<close>

definition specClasses :: "(ColliderGroup, ColliderGroup VRMSpringBoneArgs, unit) classes" where
  "specClasses =
     \<lparr>newColliderGroup = (\<lambda>bone. Inr \<lparr>group_owner = bone, group_colliders = []\<rparr>),
      addCollider = (\<lambda>g offset r. Inr (g\<lparr>group_colliders := group_colliders g @ [(offset, r)]\<rparr>)),
      newVRMSpringBone = (\<lambda>args. Inr args),
      springUpdate = (\<lambda>deltaTime boneOptions s. s)\<rparr>"

text \<open>A bone group all of whose root-bone indices resolve.\<close>

definition resolvable :: "getBone \<Rightarrow> BoneGroupConfig \<Rightarrow> bool" where
  "resolvable getBone bg =
     list_all (\<lambda>b. getBone b \<noteq> None) (case cfg_bones bg of Some bs \<Rightarrow> bs | None \<Rightarrow> [])"

text \<open>A collider group whose node index resolves.\<close>

definition resolvableGroup :: "getBone \<Rightarrow> ColliderGroupConfig \<Rightarrow> bool" where
  "resolvableGroup getBone cg = (getBone (cfg_node cg) \<noteq> None)"

section \<open>Concrete scenes\<close>

text \<open>
  A library in which every rotation is the identity: there is one quaternion and one
  matrix, and rotating a vector returns it.
\<close>

definition idlib :: "(unit, unit) mathlib" where
  "idlib = \<lparr>toQuaternion = (\<lambda>_. ()), qIdentity = (), qmultiply = (\<lambda>_ _. ()),
            qInverse = (\<lambda>_. ()), rotateByQuaternion = (\<lambda>v _. v),
            toEulerAngles = (\<lambda>_. Zero), decomposeRotation = (\<lambda>_. ()),
            FromRotationMatrix = (\<lambda>_. ()), withRotation = (\<lambda>m _. m),
            minvert = (\<lambda>m. m), mmultiply = (\<lambda>a _. a),
            multiplyWithVector3 = (\<lambda>_ v. v), fromToRotation = (\<lambda>_ _. ())\<rparr>"

text \<open>A node without parent at world position \<open>p\<close>, with a rotation quaternion.\<close>

definition rootNode :: "Vector3 \<Rightarrow> (unit, unit) TransformNode" where
  "rootNode p = \<lparr>absolutePosition = p, position = p, rotation = Zero,
                 rotationQuaternion = Some (), parent = None, worldMatrix = ()\<rparr>"

text \<open>
  A node at the origin that has no rotation quaternion yet, with the given parent; and a
  scene of such nodes in which node 1 is the parent of node 0.
\<close>

definition bareNode :: "node_id option \<Rightarrow> (unit, unit) TransformNode" where
  "bareNode par = \<lparr>absolutePosition = Zero, position = Zero, rotation = Zero,
                   rotationQuaternion = None, parent = par, worldMatrix = ()\<rparr>"

definition bareScene :: "(unit, unit) scene" where
  "bareScene = (\<lambda>_. bareNode None)(0 := bareNode (Some 1))"

text \<open>Scenes of parentless nodes: at the origin, with an infinite x, with x NaN.\<close>

definition originScene :: "(unit, unit) scene" where
  "originScene = (\<lambda>_. rootNode Zero)"

definition infiniteScene :: "(unit, unit) scene" where
  "infiniteScene = (\<lambda>_. rootNode (Vector3 PInf (Fin 0) (Fin 0)))"

definition nanScene :: "(unit, unit) scene" where
  "nanScene = (\<lambda>_. rootNode (Vector3 NaN (Fin 0) (Fin 0)))"

text \<open>
  A segment of length 1 at rest: the node is node 0, the tail is one unit above it. Both
  revisions, as their constructors build them for a node at the origin.
\<close>

definition restLogic :: "unit VRMSpringBoneLogic" where
  "restLogic = \<lparr>radius = Fin 0, transform = 0, localRotation = (),
                boneAxis = V3 0 1 0, boneLength = Fin 1, centerAbsolutePos = Zero,
                currentTail = V3 0 1 0, prevTail = V3 0 1 0\<rparr>"

definition restLogic2 :: "unit VRMSpringBoneLogic2" where
  "restLogic2 = \<lparr>radius = Fin 0, transform = 0, localRotation = (),
                 boneAxis = V3 0 1 0, boneLength = Fin 1, centerAbsolutePos = Zero,
                 currentTail = V3 0 1 0, prevTail = V3 0 1 0,
                 center = None, localChildPosition = V3 0 1 0, localPosition = Zero,
                 centerSpacePosition = Zero, parentAbsolutePos = Zero,
                 worldParentQuaternion = ()\<rparr>"



definition swingLogic2 :: "unit VRMSpringBoneLogic2" where
  "swingLogic2 = \<lparr>radius = Fin (1 / 4), transform = 0, localRotation = (),
                  boneAxis = V3 1 0 0, boneLength = Fin (5 / 2), centerAbsolutePos = Zero,
                  currentTail = V3 (5 / 2) 0 0, prevTail = V3 (5 / 2) 0 0,
                  center = None, localChildPosition = V3 (5 / 2) 0 0, localPosition = Zero,
                  centerSpacePosition = Zero, parentAbsolutePos = Zero,
                  worldParentQuaternion = ()\<rparr>"

definition ball :: SphereCollider where
  "ball = SphereCollider (V3 (5 / 2) 0 0) (Fin 5)"

definition wind :: Vector3 where
  "wind = V3 (- (9 / 5)) (12 / 5) 0"


text \<open>
  A configuration with one bone group, rooted at node index 7, and one collider group,
  attached to node index 3.
\<close>

definition hairGroup :: BoneGroupConfig where
  "hairGroup = \<lparr>cfg_comment = ''hair'', cfg_stiffiness = Fin 1, cfg_gravityPower = Fin 0,
     cfg_gravityDir = V3 0 (- 1) 0, cfg_dragForce = Fin (4 / 10),
     cfg_center = - 1, cfg_hitRadius = Fin (2 / 100), cfg_bones = Some [7],
     cfg_colliderGroups = Some [0]\<rparr>"

definition headColliders :: ColliderGroupConfig where
  "headColliders = ColliderGroupConfig 3 [ColliderConfig (V3 1 2 3) (Fin (1 / 10))]"

definition hairConfig :: IVRMSecondaryAnimation where
  "hairConfig = \<lparr>ext_boneGroups = Some [hairGroup], ext_colliderGroups = Some [headColliders]\<rparr>"

text \<open>A resolver that resolves no index, and what the constructors receive with it.\<close>

definition noBones :: getBone where
  "noBones = (\<lambda>_. None)"

definition unownedGroup :: ColliderGroup where
  "unownedGroup = \<lparr>group_owner = None, group_colliders = [(V3 (- 1) 2 (- 3), Fin (1 / 10))]\<rparr>"

definition rootlessSpring :: "ColliderGroup VRMSpringBoneArgs" where
  "rootlessSpring =
     \<lparr>arg_comment = ''hair'', arg_stiffness = Fin 1, arg_gravityPower = Fin 0,
      arg_gravityDir = V3 0 (- 1) 0, arg_dragForce = Fin (4 / 10),
      arg_center = None, arg_hitRadius = Fin (2 / 100), arg_bones = [None],
      arg_colliderGroups = [Some unownedGroup]\<rparr>"

text \<open>Options that override the direction of gravity by the zero vector, and nothing else.\<close>

definition zeroGravityDir :: ConstructSpringsOptions where
  "zeroGravityDir = \<lparr>opt_stiffness = None, opt_gravityPower = None, opt_gravityDir = Some Zero,
     opt_dragForce = None, opt_hitRadius = None\<rparr>"

text \<open>Options that override the stiffness by zero and the drag force by 1/2.\<close>

definition zeroStiffness :: ConstructSpringsOptions where
  "zeroStiffness = \<lparr>opt_stiffness = Some (Fin 0), opt_gravityPower = None, opt_gravityDir = None,
     opt_dragForce = Some (Fin (1 / 2)), opt_hitRadius = None\<rparr>"

section \<open>Arithmetic of finite vectors\<close>

lemma finiteNumber_iff: "finiteNumber n \<longleftrightarrow> (\<exists>a. n = Fin a)"
  by (cases n) simp_all

lemma finiteVector_iff: "finiteVector v \<longleftrightarrow> (\<exists>a b c. v = V3 a b c)"
  by (cases v) (auto simp: finiteVector_def V3_def finiteNumber_iff)

lemma finiteVector_V3 [simp]: "finiteVector (V3 a b c)"
  by (simp add: finiteVector_def V3_def)

lemma V3_eq_iff [simp]: "V3 a b c = V3 d e f \<longleftrightarrow> a = d \<and> b = e \<and> c = f"
  by (simp add: V3_def)

lemma Zero_V3: "Zero = V3 0 0 0"
  by (simp add: Zero_def V3_def)

lemma V3_sel [simp]: "vx (V3 a b c) = Fin a" "vy (V3 a b c) = Fin b" "vz (V3 a b c) = Fin c"
  by (simp_all add: V3_def)

lemma vadd_V3 [simp]: "vadd (V3 a b c) (V3 d e f) = V3 (a + d) (b + e) (c + f)"
  by (simp add: vadd_def V3_def)

lemma vsubtract_V3 [simp]: "vsubtract (V3 a b c) (V3 d e f) = V3 (a - d) (b - e) (c - f)"
  by (simp add: vsubtract_def V3_def jsub_def)

lemma vscale_V3 [simp]: "vscale (V3 a b c) (Fin s) = V3 (a * s) (b * s) (c * s)"
  by (simp add: vscale_def V3_def)

lemma multiplyByFloat_V3 [simp]: "multiplyByFloat (V3 a b c) (Fin s) = V3 (a * s) (b * s) (c * s)"
  by (simp add: multiplyByFloat_def V3_def)

lemma vlengthSquared_V3 [simp]: "vlengthSquared (V3 a b c) = Fin (a * a + b * b + c * c)"
  by (simp add: vlengthSquared_def V3_def)

lemma sumsq_nonneg: "0 \<le> a * a + b * b + (c::real) * c"
  by (simp add: add_nonneg_nonneg)

lemma sumsq_zero_iff: "a * a + b * b + (c::real) * c = 0 \<longleftrightarrow> a = 0 \<and> b = 0 \<and> c = 0"
proof -
  have "a * a + b * b + c * c = a\<^sup>2 + b\<^sup>2 + c\<^sup>2" by (simp add: power2_eq_square)
  then show ?thesis by (simp add: sum_power2_eq_zero_iff add_nonneg_eq_0_iff)
qed

lemma vlength_V3 [simp]: "vlength (V3 a b c) = Fin (sqrt (a * a + b * b + c * c))"
  using sumsq_nonneg [of a b c] by (simp add: vlength_def not_less)

lemma vnormalize_V3:
  "vnormalize (V3 a b c) =
     (if sqrt (a * a + b * b + c * c) = 0 \<or> sqrt (a * a + b * b + c * c) = 1 then V3 a b c
      else V3 (a * (1 / sqrt (a * a + b * b + c * c))) (b * (1 / sqrt (a * a + b * b + c * c)))
              (c * (1 / sqrt (a * a + b * b + c * c))))"
  by (simp add: vnormalize_def Let_def)

lemma vnormalize_unit:
  assumes "\<not> (a = 0 \<and> b = 0 \<and> c = 0)"
  shows "\<exists>u v w. vnormalize (V3 a b c) = V3 u v w \<and> u * u + v * v + w * w = 1"
proof -
  let ?s = "a * a + b * b + c * c"
  let ?l = "sqrt ?s"
  have s0: "0 \<le> ?s" by (rule sumsq_nonneg)
  have sne: "?s \<noteq> 0" using assms by (simp add: sumsq_zero_iff)
  have lne: "?l \<noteq> 0" using sne s0 by simp
  have ll: "?l * ?l = ?s" using s0 by simp
  show ?thesis
  proof (cases "?l = 1")
    case True
    then have "?s = 1" using ll by simp
    moreover have "vnormalize (V3 a b c) = V3 a b c" using True by (simp add: vnormalize_V3)
    ultimately show ?thesis by blast
  next
    case False
    define k where "k = 1 / ?l"
    have eq: "vnormalize (V3 a b c) = V3 (a * k) (b * k) (c * k)"
      using False lne by (simp add: vnormalize_V3 k_def)
    have kk: "k * k = 1 / ?s" using ll by (simp add: k_def)
    have "(a * k) * (a * k) + (b * k) * (b * k) + (c * k) * (c * k) = ?s * (k * k)"
      by (simp only: algebra_simps)
    also have "\<dots> = 1" using sne by (simp only: kk) simp
    finally show ?thesis using eq by blast
  qed
qed

lemma vnormalize_zero: "vnormalize (V3 0 0 0) = V3 0 0 0"
  by (simp add: vnormalize_V3)

lemma constrain_length:
  assumes "V3 p1 p2 p3 \<noteq> V3 a1 a2 a3"
  shows "\<exists>t1 t2 t3.
           vadd (V3 a1 a2 a3)
             (multiplyByFloat (vnormalize (vsubtract (V3 p1 p2 p3) (V3 a1 a2 a3))) (Fin L))
           = V3 t1 t2 t3 \<and>
           vlength (vsubtract (V3 t1 t2 t3) (V3 a1 a2 a3)) = Fin \<bar>L\<bar>"
proof -
  have nz: "\<not> (p1 - a1 = 0 \<and> p2 - a2 = 0 \<and> p3 - a3 = 0)" using assms by auto
  from vnormalize_unit [OF nz] obtain u v w where
    n: "vnormalize (V3 (p1 - a1) (p2 - a2) (p3 - a3)) = V3 u v w" and
    unit: "u * u + v * v + w * w = 1" by blast
  have "(u * L) * (u * L) + (v * L) * (v * L) + (w * L) * (w * L) = (u * u + v * v + w * w) * (L * L)"
    by (simp add: algebra_simps)
  then have sq: "(u * L) * (u * L) + (v * L) * (v * L) + (w * L) * (w * L) = L * L"
    using unit by simp
  have "sqrt (L * L) = \<bar>L\<bar>" by simp
  then show ?thesis using n sq by simp
qed

text \<open>The operations on vectors given by their components, and three square roots.\<close>

lemma vector_ops:
  "vadd (Vector3 a b c) (Vector3 d e f) = Vector3 (jadd a d) (jadd b e) (jadd c f)"
  "vsubtract (Vector3 a b c) (Vector3 d e f) = Vector3 (jsub a d) (jsub b e) (jsub c f)"
  "vscale (Vector3 a b c) s = Vector3 (jmul a s) (jmul b s) (jmul c s)"
  "multiplyByFloat (Vector3 a b c) s = Vector3 (jmul a s) (jmul b s) (jmul c s)"
  "vlengthSquared (Vector3 a b c) = jadd (jadd (jmul a a) (jmul b b)) (jmul c c)"
  by (simp_all add: vadd_def vsubtract_def vscale_def multiplyByFloat_def vlengthSquared_def)

lemma sqrt_values:
  "sqrt (25 / 4) = 5 / 2" "sqrt 9 = 3" "sqrt (289 / 16) = 17 / 4"
  by (rule real_sqrt_unique; simp add: power2_eq_square)+

section \<open>The state after an update\<close>

lemma update_state:
  assumes "\<not> isNaN (vx (absolutePosition (sc (transform this))))"
  shows "fst (update lib cen k d ext cs (this, sc)) =
     (refreshCenter cen sc this)
       \<lparr>currentTail := getCenterTranslatedPos (refreshCenter cen sc this)
            (collide (refreshCenter cen sc this) sc cs (constrained lib cen k d ext (this, sc))),
        prevTail := getCenterTranslatedPos (refreshCenter cen sc this)
            (integrated lib cen k d ext (this, sc))\<rparr>"
  using assms
  by (simp add: update_def refreshCenter_def integrated_def constrained_def addInPlace_def
      getCenterTranslatedPos_def getCenterTranslatedWorldPos_def Let_def)

lemma collide_step_eq:
  "collide_step this sc nextTail collider =
     (if hit this nextTail collider
      then vadd (absolutePosition (sc (transform this)))
             (multiplyByFloat
                (vnormalize (vsubtract (posFromCollider this nextTail collider)
                               (absolutePosition (sc (transform this)))))
                (boneLength this))
      else nextTail)"
  by (simp add: collide_step_def hit_def posFromCollider_def Let_def)

lemma vnormalize_finite: "\<exists>u v w. vnormalize (V3 a b c) = V3 u v w"
  by (simp add: vnormalize_V3)

lemma posFromCollider_finite:
  assumes "finiteCollider c" "finiteNumber (radius this)" "finiteVector T"
  shows "finiteVector (posFromCollider this T c)"
proof -
  obtain c1 c2 c3 where C: "collider_position c = V3 c1 c2 c3"
    using assms(1) by (auto simp: finiteCollider_def finiteVector_iff)
  obtain cr where CR: "collider_radius c = Fin cr"
    using assms(1) by (auto simp: finiteCollider_def finiteNumber_iff)
  obtain rr where R: "radius this = Fin rr" using assms(2) by (auto simp: finiteNumber_iff)
  obtain t1 t2 t3 where T: "T = V3 t1 t2 t3" using assms(3) by (auto simp: finiteVector_iff)
  obtain u v w where N: "vnormalize (V3 (t1 - c1) (t2 - c2) (t3 - c3)) = V3 u v w"
    using vnormalize_finite by blast
  show ?thesis by (simp add: posFromCollider_def C CR R T N)
qed



lemma refreshCenter_simps [simp]:
  "transform (refreshCenter cen sc this) = transform this"
  "boneLength (refreshCenter cen sc this) = boneLength this"
  "radius (refreshCenter cen sc this) = radius this"
  by (simp_all add: refreshCenter_def)


lemma refreshed2_simps [simp]:
  "transform (refreshed2 lib cen sc this) = transform this"
  "boneLength (refreshed2 lib cen sc this) = boneLength this"
  "radius (refreshed2 lib cen sc this) = radius this"
  "currentTail (refreshed2 lib cen sc this) = currentTail this"
  "prevTail (refreshed2 lib cen sc this) = prevTail this"
  "centerSpacePosition (refreshed2 lib cen sc this) =
     vsubtract (absolutePosition (sc (transform this)))
       (centerAbsolutePos (refreshed2 lib cen sc this))"
  by (simp_all add: refreshed2_def Let_def split: option.splits)

lemma update2_state:
  assumes "\<not> isNaN (vx (absolutePosition (sc (transform this))))"
  shows "fst (update2 lib cen k d ext cs (this, sc)) =
     (refreshed2 lib cen sc this)
       \<lparr>currentTail := collide2 (refreshed2 lib cen sc this) cs
                          (constrained2 lib cen k d ext (this, sc)),
        prevTail := currentTail this\<rparr>"
  using assms
  by (simp add: update2_def refreshed2_def integrated2_def constrained2_def Let_def
      split: option.splits)

lemma collide_step2_eq:
  "collide_step2 this nextTail collider =
     (if hit2 this nextTail collider
      then vadd
             (vscale
                (vnormalize (vsubtract (posFromCollider2 this nextTail collider)
                               (centerSpacePosition this)))
                (boneLength this))
             (centerSpacePosition this)
      else nextTail)"
  by (simp add: collide_step2_def hit2_def posFromCollider2_def Let_def)

lemma constrain_length2:
  assumes "V3 p1 p2 p3 \<noteq> V3 a1 a2 a3"
  shows "\<exists>t1 t2 t3.
           vadd (V3 a1 a2 a3)
             (vscale (vnormalize (vsubtract (V3 p1 p2 p3) (V3 a1 a2 a3))) (Fin L))
           = V3 t1 t2 t3 \<and>
           vadd (vscale (vnormalize (vsubtract (V3 p1 p2 p3) (V3 a1 a2 a3))) (Fin L))
             (V3 a1 a2 a3)
           = V3 t1 t2 t3 \<and>
           vlength (vsubtract (V3 t1 t2 t3) (V3 a1 a2 a3)) = Fin \<bar>L\<bar>"
proof -
  obtain u v w where n: "vnormalize (V3 (p1 - a1) (p2 - a2) (p3 - a3)) = V3 u v w"
    using vnormalize_finite by blast
  from constrain_length [OF assms, of L] show ?thesis
    by (simp add: n add.commute)
qed

lemma posFromCollider2_finite:
  assumes "finiteCollider c" "finiteNumber (radius this)"
    "finiteVector (centerAbsolutePos this)" "finiteVector (centerSpacePosition this)"
  shows "finiteVector (posFromCollider2 this (V3 t1 t2 t3) c)"
proof -
  obtain c1 c2 c3 where C: "collider_position c = V3 c1 c2 c3"
    using assms(1) by (auto simp: finiteCollider_def finiteVector_iff)
  obtain cr where CR: "collider_radius c = Fin cr"
    using assms(1) by (auto simp: finiteCollider_def finiteNumber_iff)
  obtain rr where R: "radius this = Fin rr" using assms(2) by (auto simp: finiteNumber_iff)
  obtain e1 e2 e3 where E: "centerAbsolutePos this = V3 e1 e2 e3"
    using assms(3) by (auto simp: finiteVector_iff)
  obtain f1 f2 f3 where F: "centerSpacePosition this = V3 f1 f2 f3"
    using assms(4) by (auto simp: finiteVector_iff)
  obtain u v w where N:
    "vnormalize (V3 (t1 - (c1 - e1 + f1)) (t2 - (c2 - e2 + f2)) (t3 - (c3 - e3 + f3))) = V3 u v w"
    using vnormalize_finite by blast
  show ?thesis by (simp add: posFromCollider2_def colliderCenterSpacePosition_def C CR R E F N)
qed




section \<open>Construction of the controller\<close>

lemma forEachE_collect:
  "forEachE (\<lambda>x acc. case f x of Inl e \<Rightarrow> Inl e | Inr y \<Rightarrow> Inr (acc @ [y])) xs acc = Inr r
   \<Longrightarrow> \<exists>ys. r = acc @ ys \<and> list_all2 (\<lambda>x y. f x = Inr y) xs ys"
proof (induction xs arbitrary: acc)
  case Nil
  then show ?case by simp
next
  case (Cons x xs)
  then obtain y where y: "f x = Inr y"
    by (cases "f x") simp_all
  with Cons.prems have
    "forEachE (\<lambda>x acc. case f x of Inl e \<Rightarrow> Inl e | Inr y \<Rightarrow> Inr (acc @ [y])) xs (acc @ [y]) = Inr r"
    by simp
  from Cons.IH [OF this] obtain ys where "r = (acc @ [y]) @ ys"
    "list_all2 (\<lambda>x y. f x = Inr y) xs ys" by blast
  then have "r = acc @ (y # ys) \<and> list_all2 (\<lambda>x y. f x = Inr y) (x # xs) (y # ys)"
    using y by simp
  then show ?case by blast
qed

lemma forEachE_total:
  "(\<And>x. x \<in> set xs \<Longrightarrow> \<exists>y. f x = Inr y) \<Longrightarrow>
   \<exists>r. forEachE (\<lambda>x acc. case f x of Inl e \<Rightarrow> Inl e | Inr y \<Rightarrow> Inr (acc @ [y])) xs acc = Inr r"
proof (induction xs arbitrary: acc)
  case Nil
  then show ?case by simp
next
  case (Cons x xs)
  then obtain y where y: "f x = Inr y" by (meson list.set_intros(1))
  from Cons.IH [of "acc @ [y]"] Cons.prems show ?case by (simp add: y)
qed

lemma constructColliderGroups_all:
  assumes "constructColliderGroups cls ext getBone = Inr gs"
  shows "list_all2 (\<lambda>cfg g. constructColliderGroup cls getBone cfg = Inr g)
           (case ext_colliderGroups ext of Some cgs \<Rightarrow> cgs | None \<Rightarrow> []) gs"
proof (cases "ext_colliderGroups ext")
  case None
  with assms show ?thesis by (simp add: constructColliderGroups_def)
next
  case (Some cgs)
  show ?thesis
  proof (cases "cgs = []")
    case True
    with assms Some show ?thesis by (simp add: constructColliderGroups_def)
  next
    case False
    with assms Some have
      "forEachE (\<lambda>x acc. case constructColliderGroup cls getBone x of
                 Inl e \<Rightarrow> Inl e | Inr y \<Rightarrow> Inr (acc @ [y])) cgs [] = Inr gs"
      by (simp add: constructColliderGroups_def)
    from forEachE_collect [OF this] show ?thesis using Some by simp
  qed
qed

lemma constructSprings_all:
  assumes "constructSprings cls ext getBone colliderGroups options = Inr ss"
  shows "list_all2 (\<lambda>cfg s. newVRMSpringBone cls (springArgs getBone colliderGroups options cfg) = Inr s)
           (case ext_boneGroups ext of Some bgs \<Rightarrow> bgs | None \<Rightarrow> []) ss"
proof (cases "ext_boneGroups ext")
  case None
  with assms show ?thesis by (simp add: constructSprings_def)
next
  case (Some bgs)
  show ?thesis
  proof (cases "bgs = []")
    case True
    with assms Some show ?thesis by (simp add: constructSprings_def)
  next
    case False
    with assms Some have
      "forEachE (\<lambda>x acc. case newVRMSpringBone cls (springArgs getBone colliderGroups options x) of
                 Inl e \<Rightarrow> Inl e | Inr y \<Rightarrow> Inr (acc @ [y])) bgs [] = Inr ss"
      by (simp add: constructSprings_def)
    from forEachE_collect [OF this] show ?thesis using Some by simp
  qed
qed

section \<open>Construction of a spring bone\<close>

lemma initRotationQuaternions_self:
  "rotationQuaternion (initRotationQuaternions lib t sc t) \<noteq> None"
  by (auto simp: initRotationQuaternions_def Let_def split: option.splits)

lemma initRotationQuaternions_parent:
  "parent (sc t) = Some p \<Longrightarrow> rotationQuaternion (initRotationQuaternions lib t sc p) \<noteq> None"
  by (auto simp: initRotationQuaternions_def Let_def split: option.splits)

lemma initRotationQuaternions_euler:
  "rotationQuaternion (sc t) = None \<Longrightarrow>
   rotationQuaternion (initRotationQuaternions lib t sc t)
     = Some (toQuaternion lib (rotation (sc t)))"
  by (auto simp: initRotationQuaternions_def Let_def split: option.splits)

lemma constructor_Inr:
  "\<exists>this. constructor lib cen rad t lcp sc = Inr (this, initRotationQuaternions lib t sc) \<and>
     prevTail this = currentTail this \<and> boneAxis this = vnormalize lcp \<and>
     boneLength this = vlength lcp"
  using initRotationQuaternions_self [of lib t sc]
  by (auto simp: constructor_def Let_def split: option.splits)

lemma constructor2_Inr:
  "\<exists>this. constructor2 lib cen rad t lcp sc = Inr (this, initRotationQuaternions lib t sc) \<and>
     prevTail this = currentTail this \<and> boneAxis this = vnormalize lcp \<and>
     boneLength this = vlength lcp"
  using initRotationQuaternions_self [of lib t sc]
  by (auto simp: constructor2_def init2_def Let_def split: option.splits)

text \<open>
  Claim C9. Immediately after a \<open>VRMSpringBoneLogic\<close> has been constructed, \<open>prevTail\<close>
  equals \<open>currentTail\<close>, \<open>boneAxis\<close> is the normalization of \<open>localChildPosition\<close>, and
  \<open>boneLength\<close> is the Euclidean length of \<open>localChildPosition\<close>. This holds for both
  revisions of the class, and the constructor always returns.
\<close>

theorem constructor_rest_state:
  "(\<exists>this sc'. constructor lib cen rad t lcp sc = Inr (this, sc') \<and>
      prevTail this = currentTail this \<and>
      boneAxis this = vnormalize lcp \<and>
      boneLength this = vlength lcp) \<and>
   (\<exists>this sc'. constructor2 lib cen rad t lcp sc = Inr (this, sc') \<and>
      prevTail this = currentTail this \<and>
      boneAxis this = vnormalize lcp \<and>
      boneLength this = vlength lcp)"
proof
  from constructor_Inr [of lib cen rad t lcp sc]
  show "\<exists>this sc'. constructor lib cen rad t lcp sc = Inr (this, sc') \<and>
      prevTail this = currentTail this \<and> boneAxis this = vnormalize lcp \<and>
      boneLength this = vlength lcp"
    by blast
next
  from constructor2_Inr [of lib cen rad t lcp sc]
  show "\<exists>this sc'. constructor2 lib cen rad t lcp sc = Inr (this, sc') \<and>
      prevTail this = currentTail this \<and> boneAxis this = vnormalize lcp \<and>
      boneLength this = vlength lcp"
    by blast
qed

text \<open>
  Claim C10. Constructing a \<open>VRMSpringBoneLogic\<close> writes to the scene: afterwards the
  rotation quaternion of the node is not null (it is the quaternion of the Euler rotation
  when it was null before), and when the node has a parent, the rotation quaternion of the
  parent is not null either. This holds for both revisions of the class, whose
  constructors never meet a null quaternion.
\<close>

theorem constructor_initialises_quaternions:
  "(\<exists>this sc'. constructor lib cen rad t lcp sc = Inr (this, sc') \<and>
      rotationQuaternion (sc' t) \<noteq> None \<and>
      (\<forall>p. parent (sc t) = Some p \<longrightarrow> rotationQuaternion (sc' p) \<noteq> None) \<and>
      (rotationQuaternion (sc t) = None \<longrightarrow>
         rotationQuaternion (sc' t) = Some (toQuaternion lib (rotation (sc t))))) \<and>
   (\<exists>this sc'. constructor2 lib cen rad t lcp sc = Inr (this, sc') \<and>
      rotationQuaternion (sc' t) \<noteq> None \<and>
      (\<forall>p. parent (sc t) = Some p \<longrightarrow> rotationQuaternion (sc' p) \<noteq> None) \<and>
      (rotationQuaternion (sc t) = None \<longrightarrow>
         rotationQuaternion (sc' t) = Some (toQuaternion lib (rotation (sc t)))))"
proof -
  let ?sc' = "initRotationQuaternions lib t sc"
  have q: "rotationQuaternion (?sc' t) \<noteq> None \<and>
      (\<forall>p. parent (sc t) = Some p \<longrightarrow> rotationQuaternion (?sc' p) \<noteq> None) \<and>
      (rotationQuaternion (sc t) = None \<longrightarrow>
         rotationQuaternion (?sc' t) = Some (toQuaternion lib (rotation (sc t))))"
    using initRotationQuaternions_self [of lib t sc]
      initRotationQuaternions_parent [of sc t _ lib]
      initRotationQuaternions_euler [of sc t lib]
    by blast
  from constructor_Inr [of lib cen rad t lcp sc] obtain this
    where a: "constructor lib cen rad t lcp sc = Inr (this, ?sc')" by blast
  from constructor2_Inr [of lib cen rad t lcp sc] obtain this2
    where b: "constructor2 lib cen rad t lcp sc = Inr (this2, ?sc')" by blast
  show ?thesis
  proof (rule conjI)
    have "constructor lib cen rad t lcp sc = Inr (this, ?sc') \<and>
      rotationQuaternion (?sc' t) \<noteq> None \<and>
      (\<forall>p. parent (sc t) = Some p \<longrightarrow> rotationQuaternion (?sc' p) \<noteq> None) \<and>
      (rotationQuaternion (sc t) = None \<longrightarrow>
         rotationQuaternion (?sc' t) = Some (toQuaternion lib (rotation (sc t))))"
      using a q by (rule conjI)
    then have "\<exists>sc'. constructor lib cen rad t lcp sc = Inr (this, sc') \<and>
      rotationQuaternion (sc' t) \<noteq> None \<and>
      (\<forall>p. parent (sc t) = Some p \<longrightarrow> rotationQuaternion (sc' p) \<noteq> None) \<and>
      (rotationQuaternion (sc t) = None \<longrightarrow>
         rotationQuaternion (sc' t) = Some (toQuaternion lib (rotation (sc t))))"
      by (rule exI [where x = "?sc'"])
    then show "\<exists>this sc'. constructor lib cen rad t lcp sc = Inr (this, sc') \<and>
      rotationQuaternion (sc' t) \<noteq> None \<and>
      (\<forall>p. parent (sc t) = Some p \<longrightarrow> rotationQuaternion (sc' p) \<noteq> None) \<and>
      (rotationQuaternion (sc t) = None \<longrightarrow>
         rotationQuaternion (sc' t) = Some (toQuaternion lib (rotation (sc t))))"
      by (rule exI)
  next
    have "constructor2 lib cen rad t lcp sc = Inr (this2, ?sc') \<and>
      rotationQuaternion (?sc' t) \<noteq> None \<and>
      (\<forall>p. parent (sc t) = Some p \<longrightarrow> rotationQuaternion (?sc' p) \<noteq> None) \<and>
      (rotationQuaternion (sc t) = None \<longrightarrow>
         rotationQuaternion (?sc' t) = Some (toQuaternion lib (rotation (sc t))))"
      using b q by (rule conjI)
    then have "\<exists>sc'. constructor2 lib cen rad t lcp sc = Inr (this2, sc') \<and>
      rotationQuaternion (sc' t) \<noteq> None \<and>
      (\<forall>p. parent (sc t) = Some p \<longrightarrow> rotationQuaternion (sc' p) \<noteq> None) \<and>
      (rotationQuaternion (sc t) = None \<longrightarrow>
         rotationQuaternion (sc' t) = Some (toQuaternion lib (rotation (sc t))))"
      by (rule exI [where x = "?sc'"])
    then show "\<exists>this sc'. constructor2 lib cen rad t lcp sc = Inr (this, sc') \<and>
      rotationQuaternion (sc' t) \<noteq> None \<and>
      (\<forall>p. parent (sc t) = Some p \<longrightarrow> rotationQuaternion (sc' p) \<noteq> None) \<and>
      (rotationQuaternion (sc t) = None \<longrightarrow>
         rotationQuaternion (sc' t) = Some (toQuaternion lib (rotation (sc t))))"
      by (rule exI)
  qed
qed

theorem constructor_initialises_quaternions_witness:
  "parent (bareScene 0) = Some 1 \<and>
   rotationQuaternion (bareScene 0) = None \<and> rotationQuaternion (bareScene 1) = None \<and>
   \<not> isl (constructor idlib None (Fin 0) 0 (V3 0 1 0) bareScene) \<and>
   rotationQuaternion (snd (projr (constructor idlib None (Fin 0) 0 (V3 0 1 0) bareScene)) 0)
     = Some () \<and>
   rotationQuaternion (snd (projr (constructor idlib None (Fin 0) 0 (V3 0 1 0) bareScene)) 1)
     = Some () \<and>
   \<not> isl (constructor2 idlib None (Fin 0) 0 (V3 0 1 0) bareScene) \<and>
   rotationQuaternion (snd (projr (constructor2 idlib None (Fin 0) 0 (V3 0 1 0) bareScene)) 0)
     = Some () \<and>
   rotationQuaternion (snd (projr (constructor2 idlib None (Fin 0) 0 (V3 0 1 0) bareScene)) 1)
     = Some ()"
proof -
  have p: "parent (bareScene 0) = Some 1"
    and n: "rotationQuaternion (bareScene 0) = None" "rotationQuaternion (bareScene 1) = None"
    by (simp_all add: bareScene_def bareNode_def)
  from constructor_initialises_quaternions [of idlib None "Fin 0" 0 "V3 0 1 0" bareScene] p
  show ?thesis using n by auto
qed

text \<open>
  The segment at rest of the concrete scenes is what both constructors build for a node
  at the origin whose child is one unit above it.
\<close>

lemma rest_constructed:
  "constructor idlib None (Fin 0) 0 (V3 0 1 0) originScene = Inr (restLogic, originScene)"
  by (simp add: constructor_def initRotationQuaternions_def originScene_def rootNode_def
      restLogic_def Zero_V3 vnormalize_V3)
     (simp add: Let_def)

lemma rest2_constructed:
  "constructor2 idlib None (Fin 0) 0 (V3 0 1 0) originScene = Inr (restLogic2, originScene)"
  by (simp add: constructor2_def init2_def initRotationQuaternions_def originScene_def
      rootNode_def restLogic2_def Zero_V3 vnormalize_V3 localToWorld_def idlib_def mirrorY_def)
     (simp add: Let_def V3_def)

section \<open>The validity guard\<close>

text \<open>
  Claim C4, as amended. When the x component of the node's absolute position is NaN, the
  update is skipped: the spring bone (with \<open>currentTail\<close> and \<open>prevTail\<close>) and the scene
  (with the rotation of the node) are returned as they were, and nothing is raised. This
  holds for both revisions. The guard looks at no other component and does not test for
  infinity.
\<close>

theorem validity_guard_skip:
  "(isNaN (vx (absolutePosition (sc (transform this)))) \<longrightarrow>
      update lib cen stiffnessForce dragForce external colliders (this, sc) = (this, sc)) \<and>
   (isNaN (vx (absolutePosition (sc (transform this2)))) \<longrightarrow>
      update2 lib cen stiffnessForce dragForce external colliders (this2, sc) = (this2, sc))"
  by (simp add: update_def update2_def Let_def)

theorem validity_guard_skip_witness:
  "isNaN (vx (absolutePosition (nanScene (transform restLogic)))) \<and>
   update idlib None (Fin 1) (Fin 0) wind [ball] (restLogic, nanScene) = (restLogic, nanScene) \<and>
   isNaN (vx (absolutePosition (nanScene (transform restLogic2)))) \<and>
   update2 idlib None (Fin 1) (Fin 0) wind [ball] (restLogic2, nanScene) = (restLogic2, nanScene)"
proof -
  have "isNaN (vx (absolutePosition (nanScene (transform restLogic))))"
    "isNaN (vx (absolutePosition (nanScene (transform restLogic2))))"
    by (simp_all add: nanScene_def rootNode_def)
  with validity_guard_skip [of nanScene restLogic idlib None "Fin 1" "Fin 0" wind "[ball]" restLogic2]
  show ?thesis by simp
qed

text \<open>
  The claim as it was stated covers every non-finite component. With an absolute position
  whose x is infinite the update is not skipped: both revisions overwrite \<open>currentTail\<close>.
\<close>

theorem validity_guard_counterexample:
  "\<not> finiteNumber (vx (absolutePosition (infiniteScene (transform restLogic)))) \<and>
   currentTail restLogic = V3 0 1 0 \<and>
   currentTail (fst (update idlib None (Fin 0) (Fin 1) Zero [] (restLogic, infiniteScene)))
     = Vector3 NaN (Fin 0) (Fin 0) \<and>
   \<not> finiteNumber (vx (absolutePosition (infiniteScene (transform restLogic2)))) \<and>
   currentTail restLogic2 = V3 0 1 0 \<and>
   currentTail (fst (update2 idlib None (Fin 0) (Fin 1) Zero [] (restLogic2, infiniteScene)))
     = Vector3 NaN NaN NaN"
proof -
  have a: "currentTail (fst (update idlib None (Fin 0) (Fin 1) Zero [] (restLogic, infiniteScene)))
     = Vector3 NaN (Fin 0) (Fin 0)"
    by (simp add: update_def restLogic_def infiniteScene_def rootNode_def V3_def Zero_def
        idlib_def getCenterTranslatedWorldPos_def getCenterTranslatedPos_def addInPlace_def
        jsub_def getAbsoluteRotationQuaternion_def vnormalize_def vlength_def vector_ops)
       (simp add: Let_def)
  have b: "currentTail (fst (update2 idlib None (Fin 0) (Fin 1) Zero [] (restLogic2, infiniteScene)))
     = Vector3 NaN NaN NaN"
    by (simp add: update2_def restLogic2_def infiniteScene_def rootNode_def V3_def Zero_def
        idlib_def jsub_def vnormalize_def vlength_def vector_ops)
       (simp add: Let_def)
  show ?thesis
    by (simp only: a b) (simp add: restLogic_def restLogic2_def infiniteScene_def rootNode_def)
qed

section \<open>The state advance\<close>

text \<open>
  In the second revision the update stores the old \<open>currentTail\<close> in \<open>prevTail\<close> and the
  new tail in \<open>currentTail\<close>.
\<close>

lemma update2_state_advance:
  assumes "\<not> isNaN (vx (absolutePosition (sc (transform this))))"
  shows "prevTail (fst (update2 lib cen k d ext cs (this, sc))) = currentTail this \<and>
         currentTail (fst (update2 lib cen k d ext cs (this, sc)))
           = collide2 (refreshed2 lib cen sc this) cs (constrained2 lib cen k d ext (this, sc))"
  by (simp add: update2_state [where sc = sc and this = this, OF assms])

text \<open>
  In the first revision \<open>prevTail\<close> receives the vector that the three additions have
  written into the object shared by \<open>currentTail\<close> and \<open>nextTail\<close>.
\<close>

lemma update_state_advance:
  assumes "\<not> isNaN (vx (absolutePosition (sc (transform this))))"
  shows "prevTail (fst (update lib cen k d ext cs (this, sc)))
           = getCenterTranslatedPos (refreshCenter cen sc this)
               (integrated lib cen k d ext (this, sc)) \<and>
         currentTail (fst (update lib cen k d ext cs (this, sc)))
           = getCenterTranslatedPos (refreshCenter cen sc this)
               (collide (refreshCenter cen sc this) sc cs (constrained lib cen k d ext (this, sc)))"
  by (simp add: update_state [where sc = sc and this = this, OF assms])

text \<open>
  Claim C2. When an update that is not skipped returns, \<open>prevTail\<close> is the value
  \<open>currentTail\<close> held before the update, and \<open>currentTail\<close> is the new tail. The first
  revision does not do this: for the segment at rest, as its constructor built it, with no
  stiffness, full drag and a force of one unit along x, \<open>currentTail\<close> was (0, 1, 0)
  before the update and \<open>prevTail\<close> is (1, 1, 0) after it.
\<close>

theorem state_advance_aliasing:
  "constructor idlib None (Fin 0) 0 (V3 0 1 0) originScene = Inr (restLogic, originScene) \<and>
   \<not> isNaN (vx (absolutePosition (originScene (transform restLogic)))) \<and>
   currentTail restLogic = V3 0 1 0 \<and>
   prevTail (fst (update idlib None (Fin 0) (Fin 1) (V3 1 0 0) [] (restLogic, originScene)))
     = V3 1 1 0"
proof -
  have "\<not> isNaN (vx (absolutePosition (originScene (transform restLogic)))) \<and>
   currentTail restLogic = V3 0 1 0 \<and>
   prevTail (fst (update idlib None (Fin 0) (Fin 1) (V3 1 0 0) [] (restLogic, originScene)))
     = V3 1 1 0"
    by (simp add: update_def restLogic_def originScene_def rootNode_def V3_def Zero_def idlib_def
        getCenterTranslatedWorldPos_def getCenterTranslatedPos_def addInPlace_def
        jsub_def getAbsoluteRotationQuaternion_def vector_ops)
       (simp add: Let_def)
  with rest_constructed show ?thesis by (rule conjI)
qed

section \<open>Two worked scenes\<close>










lemma swing2_refreshed:
  "refreshed2 idlib None originScene swingLogic2 = swingLogic2"
  by (simp add: refreshed2_def swingLogic2_def originScene_def rootNode_def idlib_def Zero_V3)

lemma swing2_integrated:
  "integrated2 idlib None (Fin 0) (Fin 1) wind (swingLogic2, originScene) = V3 (7 / 10) (12 / 5) 0"
  by (simp add: integrated2_def swing2_refreshed)
     (simp add: swingLogic2_def wind_def originScene_def rootNode_def idlib_def Zero_V3 jsub_def
        vnormalize_V3 sqrt_values)

lemma swing2_constrained:
  "constrained2 idlib None (Fin 0) (Fin 1) wind (swingLogic2, originScene) = V3 (7 / 10) (12 / 5) 0"
  by (simp add: constrained2_def swing2_integrated swing2_refreshed)
     (simp add: swingLogic2_def Zero_V3 vnormalize_V3 sqrt_values)

lemma swing2_position: "colliderCenterSpacePosition swingLogic2 ball = V3 (5 / 2) 0 0"
  by (simp add: colliderCenterSpacePosition_def swingLogic2_def ball_def Zero_V3)

lemma swing2_hit: "hit2 swingLogic2 (V3 (7 / 10) (12 / 5) 0) ball"
  by (simp add: hit2_def swing2_position) (simp add: swingLogic2_def ball_def jsub_def)

lemma swing2_posFromCollider:
  "posFromCollider2 swingLogic2 (V3 (7 / 10) (12 / 5) 0) ball = V3 (- (13 / 20)) (21 / 5) 0"
  by (simp add: posFromCollider2_def swing2_position)
     (simp add: swingLogic2_def ball_def vnormalize_V3 sqrt_values)


lemma swing2_regular:
  "regularUpdate2 idlib None (Fin 0) (Fin 1) wind [ball] (swingLogic2, originScene)"
  by (simp add: regularUpdate2_def swing2_refreshed swing2_integrated swing2_constrained
      swing2_hit swing2_posFromCollider finiteCollider_def)
     (simp add: swingLogic2_def originScene_def rootNode_def Zero_V3 ball_def)




lemma swing2_constructed:
  "constructor2 idlib None (Fin (1 / 4)) 0 (V3 (5 / 2) 0 0) originScene
     = Inr (swingLogic2, originScene)"
  by (simp add: constructor2_def init2_def initRotationQuaternions_def originScene_def
      rootNode_def swingLogic2_def Zero_V3 vnormalize_V3 localToWorld_def idlib_def mirrorY_def)
     (simp add: Let_def V3_def sqrt_values)

section \<open>Rigidity\<close>




section \<open>Collision resolution\<close>




lemma posFromCollider_distance:
  assumes "radius this = Fin rad" "collider = SphereCollider (V3 c1 c2 c3) (Fin cr)"
    and "V3 t1 t2 t3 \<noteq> V3 c1 c2 c3"
  shows "vlength (vsubtract (posFromCollider this (V3 t1 t2 t3) collider) (V3 c1 c2 c3))
           = Fin \<bar>rad + cr\<bar>"
proof -
  from constrain_length [OF assms(3), of "rad + cr"] show ?thesis
    by (auto simp add: posFromCollider_def assms(1,2))
qed


lemma ccsp_finite:
  assumes "centerSpacePosition this = V3 n1 n2 n3" "centerAbsolutePos this = V3 e1 e2 e3"
    "collider = SphereCollider (V3 c1 c2 c3) (Fin cr)"
  shows "colliderCenterSpacePosition this collider = V3 (c1 - e1 + n1) (c2 - e2 + n2) (c3 - e3 + n3)"
  by (simp add: colliderCenterSpacePosition_def assms)


lemma posFromCollider2_distance:
  assumes "radius this = Fin rad" "centerSpacePosition this = V3 n1 n2 n3"
    "centerAbsolutePos this = V3 e1 e2 e3" "collider = SphereCollider (V3 c1 c2 c3) (Fin cr)"
    and "V3 t1 t2 t3 \<noteq> V3 (c1 - e1 + n1) (c2 - e2 + n2) (c3 - e3 + n3)"
  shows "vlength (vsubtract (posFromCollider2 this (V3 t1 t2 t3) collider)
                    (V3 (c1 - e1 + n1) (c2 - e2 + n2) (c3 - e3 + n3)))
           = Fin \<bar>rad + cr\<bar>"
proof -
  have r: "jadd (radius this) (collider_radius collider) = Fin (rad + cr)"
    by (simp add: assms(1,4))
  from constrain_length2 [OF assms(5), of "rad + cr"] show ?thesis
    by (simp only: posFromCollider2_def ccsp_finite [OF assms(2,3,4)] r) metis
qed





section \<open>Collision containment\<close>




lemma containment_update2:
  assumes reg: "regularUpdate2 lib cen k d ext [collider] (this, sc)"
    and h: "hit2 (refreshed2 lib cen sc this) (constrained2 lib cen k d ext (this, sc)) collider"
  shows "currentTail (fst (update2 lib cen k d ext [collider] (this, sc)))
         = vadd
             (vscale
                (vnormalize
                   (vsubtract
                      (posFromCollider2 (refreshed2 lib cen sc this)
                         (constrained2 lib cen k d ext (this, sc)) collider)
                      (centerSpacePosition (refreshed2 lib cen sc this))))
                (boneLength this))
             (centerSpacePosition (refreshed2 lib cen sc this))"
proof -
  from reg have "finiteVector (absolutePosition (sc (transform this)))"
    by (simp add: regularUpdate2_def Let_def)
  then have nan: "\<not> isNaN (vx (absolutePosition (sc (transform this))))"
    by (auto simp: finiteVector_iff)
  show ?thesis
    using h
    by (simp only: update2_state [where sc = sc and this = this, OF nan] collide2.simps
        collide_step2_eq if_True refreshed2_simps)
       simp
qed



lemma swing2_tail:
  "currentTail (fst (update2 idlib None (Fin 0) (Fin 1) wind [ball] (swingLogic2, originScene)))
   = V3 (- (13 / 34)) (42 / 17) 0"
proof -
  have h: "hit2 (refreshed2 idlib None originScene swingLogic2)
             (constrained2 idlib None (Fin 0) (Fin 1) wind (swingLogic2, originScene)) ball"
    by (simp add: swing2_refreshed swing2_constrained swing2_hit)
  show ?thesis
    by (simp only: containment_update2 [OF swing2_regular h] swing2_refreshed swing2_constrained
        swing2_posFromCollider)
       (simp add: swingLogic2_def Zero_V3 vnormalize_V3 sqrt_values)
qed





section \<open>Colliders clear of the node\<close>

text \<open>
  When every collider is clear of the node, no hit pushes the tail onto the node, whatever
  the tail is: the last condition of a regular update then holds.
\<close>

lemma collide_step_finite:
  assumes "finiteCollider c" "finiteNumber (radius this)" "finiteNumber (boneLength this)"
    "finiteVector (absolutePosition (sc (transform this)))"
  shows "finiteVector (collide_step this sc (V3 t1 t2 t3) c)"
proof -
  obtain a1 a2 a3 where abs: "absolutePosition (sc (transform this)) = V3 a1 a2 a3"
    using assms(4) by (auto simp: finiteVector_iff)
  obtain L where len: "boneLength this = Fin L" using assms(3) by (auto simp: finiteNumber_iff)
  have "finiteVector (posFromCollider this (V3 t1 t2 t3) c)"
    by (rule posFromCollider_finite [OF assms(1,2)]) simp
  then obtain p1 p2 p3 where P: "posFromCollider this (V3 t1 t2 t3) c = V3 p1 p2 p3"
    by (auto simp: finiteVector_iff)
  obtain u v w where n: "vnormalize (V3 (p1 - a1) (p2 - a2) (p3 - a3)) = V3 u v w"
    using vnormalize_finite by blast
  show ?thesis by (simp add: collide_step_eq abs len P n)
qed

lemma pushOut_clear:
  assumes c: "c = SphereCollider (V3 c1 c2 c3) (Fin cr)" and r: "radius this = Fin rad"
    and clear: "clearOfNode this (V3 a1 a2 a3) c"
  shows "posFromCollider this (V3 t1 t2 t3) c \<noteq> V3 a1 a2 a3"
proof (cases "V3 t1 t2 t3 = V3 c1 c2 c3")
  case True
  then have "posFromCollider this (V3 t1 t2 t3) c = V3 c1 c2 c3"
    by (simp add: posFromCollider_def c r vnormalize_V3)
  with clear show ?thesis by (simp add: clearOfNode_def c)
next
  case False
  from posFromCollider_distance [OF r c False]
  have d: "vlength (vsubtract (posFromCollider this (V3 t1 t2 t3) c) (V3 c1 c2 c3))
             = Fin \<bar>rad + cr\<bar>" .
  show ?thesis
  proof
    assume "posFromCollider this (V3 t1 t2 t3) c = V3 a1 a2 a3"
    with d have "sqrt ((a1 - c1) * (a1 - c1) + (a2 - c2) * (a2 - c2) + (a3 - c3) * (a3 - c3))
                   = \<bar>rad + cr\<bar>" by simp
    then have "(sqrt ((a1 - c1) * (a1 - c1) + (a2 - c2) * (a2 - c2) + (a3 - c3) * (a3 - c3)))\<^sup>2
                   = \<bar>rad + cr\<bar>\<^sup>2" by simp
    moreover have "0 \<le> (a1 - c1) * (a1 - c1) + (a2 - c2) * (a2 - c2) + (a3 - c3) * (a3 - c3)"
      by (rule sumsq_nonneg)
    ultimately have "(a1 - c1) * (a1 - c1) + (a2 - c2) * (a2 - c2) + (a3 - c3) * (a3 - c3)
                   = (rad + cr) * (rad + cr)"
      by (simp add: power2_eq_square)
    with clear show False by (simp add: clearOfNode_def c r)
  qed
qed

lemma pushOutAvoidsNode_clear:
  assumes "list_all finiteCollider cs" "finiteNumber (radius this)"
    "finiteNumber (boneLength this)"
    and abs: "absolutePosition (sc (transform this)) = V3 a1 a2 a3"
    and "list_all (clearOfNode this (V3 a1 a2 a3)) cs"
  shows "pushOutAvoidsNode this sc cs (V3 t1 t2 t3)"
  using assms(1,5)
proof (induction cs arbitrary: t1 t2 t3)
  case Nil
  then show ?case by simp
next
  case (Cons c cs)
  from Cons.prems have fc: "finiteCollider c" and cl: "clearOfNode this (V3 a1 a2 a3) c"
    and rest: "list_all finiteCollider cs" "list_all (clearOfNode this (V3 a1 a2 a3)) cs"
    by simp_all
  from fc obtain c1 c2 c3 cr where c: "c = SphereCollider (V3 c1 c2 c3) (Fin cr)"
    by (cases c) (auto simp: finiteCollider_def finiteVector_iff finiteNumber_iff)
  from assms(2) obtain rad where r: "radius this = Fin rad" by (auto simp: finiteNumber_iff)
  have ne: "posFromCollider this (V3 t1 t2 t3) c \<noteq> V3 a1 a2 a3"
    by (rule pushOut_clear [OF c r cl])
  have "finiteVector (collide_step this sc (V3 t1 t2 t3) c)"
    by (rule collide_step_finite [OF fc assms(2,3)]) (simp add: abs)
  then obtain s1 s2 s3 where s: "collide_step this sc (V3 t1 t2 t3) c = V3 s1 s2 s3"
    by (auto simp: finiteVector_iff)
  from Cons.IH [OF rest, of s1 s2 s3] ne show ?case by (simp add: abs s)
qed

lemma collide_step2_finite:
  assumes "finiteCollider c" "finiteNumber (radius this)" "finiteNumber (boneLength this)"
    "finiteVector (centerAbsolutePos this)" "finiteVector (centerSpacePosition this)"
  shows "finiteVector (collide_step2 this (V3 t1 t2 t3) c)"
proof -
  obtain n1 n2 n3 where csp: "centerSpacePosition this = V3 n1 n2 n3"
    using assms(5) by (auto simp: finiteVector_iff)
  obtain L where len: "boneLength this = Fin L" using assms(3) by (auto simp: finiteNumber_iff)
  have "finiteVector (posFromCollider2 this (V3 t1 t2 t3) c)"
    by (rule posFromCollider2_finite [OF assms(1,2,4,5)])
  then obtain p1 p2 p3 where P: "posFromCollider2 this (V3 t1 t2 t3) c = V3 p1 p2 p3"
    by (auto simp: finiteVector_iff)
  obtain u v w where n: "vnormalize (V3 (p1 - n1) (p2 - n2) (p3 - n3)) = V3 u v w"
    using vnormalize_finite by blast
  show ?thesis by (simp add: collide_step2_eq csp len P n)
qed

lemma pushOut_clear2:
  assumes c: "c = SphereCollider (V3 c1 c2 c3) (Fin cr)" and r: "radius this = Fin rad"
    and csp: "centerSpacePosition this = V3 n1 n2 n3"
    and cap: "centerAbsolutePos this = V3 e1 e2 e3"
    and clear: "clearOfNode2 this c"
  shows "posFromCollider2 this (V3 t1 t2 t3) c \<noteq> V3 n1 n2 n3"
proof -
  let ?k1 = "c1 - e1 + n1" and ?k2 = "c2 - e2 + n2" and ?k3 = "c3 - e3 + n3"
  note cc = ccsp_finite [OF csp cap c]
  show ?thesis
  proof (cases "V3 t1 t2 t3 = V3 ?k1 ?k2 ?k3")
    case True
    then have "posFromCollider2 this (V3 t1 t2 t3) c = V3 ?k1 ?k2 ?k3"
      by (simp only: posFromCollider2_def cc) (simp add: c r vnormalize_V3)
    moreover from clear have "colliderCenterSpacePosition this c \<noteq> centerSpacePosition this"
      unfolding clearOfNode2_def by (rule conjunct1)
    ultimately show ?thesis by (simp only: cc csp) simp
  next
    case False
    from posFromCollider2_distance [OF r csp cap c False]
    have d: "vlength (vsubtract (posFromCollider2 this (V3 t1 t2 t3) c) (V3 ?k1 ?k2 ?k3))
               = Fin \<bar>rad + cr\<bar>" .
    show ?thesis
    proof
      assume "posFromCollider2 this (V3 t1 t2 t3) c = V3 n1 n2 n3"
      with d have "sqrt ((n1 - ?k1) * (n1 - ?k1) + (n2 - ?k2) * (n2 - ?k2)
                           + (n3 - ?k3) * (n3 - ?k3)) = \<bar>rad + cr\<bar>" by simp
      then have "(sqrt ((n1 - ?k1) * (n1 - ?k1) + (n2 - ?k2) * (n2 - ?k2)
                           + (n3 - ?k3) * (n3 - ?k3)))\<^sup>2 = \<bar>rad + cr\<bar>\<^sup>2" by simp
      moreover have "0 \<le> (n1 - ?k1) * (n1 - ?k1) + (n2 - ?k2) * (n2 - ?k2)
                           + (n3 - ?k3) * (n3 - ?k3)"
        by (rule sumsq_nonneg)
      ultimately have eq: "(n1 - ?k1) * (n1 - ?k1) + (n2 - ?k2) * (n2 - ?k2)
                           + (n3 - ?k3) * (n3 - ?k3) = (rad + cr) * (rad + cr)"
        by (simp add: power2_eq_square)
      from clear have "vlengthSquared (vsubtract (V3 n1 n2 n3) (V3 ?k1 ?k2 ?k3))
          \<noteq> jmul (jadd (radius this) (collider_radius c)) (jadd (radius this) (collider_radius c))"
        unfolding clearOfNode2_def cc csp by (rule conjunct2)
      then have "(n1 - ?k1) * (n1 - ?k1) + (n2 - ?k2) * (n2 - ?k2)
                           + (n3 - ?k3) * (n3 - ?k3) \<noteq> (rad + cr) * (rad + cr)"
        by (simp add: c r)
      with eq show False by (rule notE [rotated])
    qed
  qed
qed

lemma pushOutAvoidsNode2_clear:
  assumes "list_all finiteCollider cs" "finiteNumber (radius this)"
    "finiteNumber (boneLength this)" "finiteVector (centerAbsolutePos this)"
    "finiteVector (centerSpacePosition this)"
    and "list_all (clearOfNode2 this) cs"
  shows "pushOutAvoidsNode2 this cs (V3 t1 t2 t3)"
  using assms(1,6)
proof (induction cs arbitrary: t1 t2 t3)
  case Nil
  then show ?case by simp
next
  case (Cons c cs)
  from Cons.prems have fc: "finiteCollider c" and cl: "clearOfNode2 this c"
    and rest: "list_all finiteCollider cs" "list_all (clearOfNode2 this) cs"
    by simp_all
  from fc obtain c1 c2 c3 cr where c: "c = SphereCollider (V3 c1 c2 c3) (Fin cr)"
    by (cases c) (auto simp: finiteCollider_def finiteVector_iff finiteNumber_iff)
  from assms(2) obtain rad where r: "radius this = Fin rad" by (auto simp: finiteNumber_iff)
  from assms(5) obtain n1 n2 n3 where csp: "centerSpacePosition this = V3 n1 n2 n3"
    by (auto simp: finiteVector_iff)
  from assms(4) obtain e1 e2 e3 where cap: "centerAbsolutePos this = V3 e1 e2 e3"
    by (auto simp: finiteVector_iff)
  have ne: "posFromCollider2 this (V3 t1 t2 t3) c \<noteq> V3 n1 n2 n3"
    by (rule pushOut_clear2 [OF c r csp cap cl])
  have "finiteVector (collide_step2 this (V3 t1 t2 t3) c)"
    by (rule collide_step2_finite [OF fc assms(2,3,4,5)])
  then obtain s1 s2 s3 where s: "collide_step2 this (V3 t1 t2 t3) c = V3 s1 s2 s3"
    by (auto simp: finiteVector_iff)
  from Cons.IH [OF rest, of s1 s2 s3] ne show ?case by (simp add: csp s)
qed

section \<open>The controller\<close>

subsection \<open>Unresolved node indices\<close>

lemma forEachE_never_fails:
  "(\<And>x acc. \<exists>r. f x acc = Inr r) \<Longrightarrow> \<exists>r. forEachE f xs acc = Inr r"
proof (induction xs arbitrary: acc)
  case Nil
  then show ?case by simp
next
  case (Cons x xs)
  from Cons.prems obtain r where r: "f x acc = Inr r" by blast
  from Cons.IH [OF Cons.prems, of r] show ?case by (simp add: r)
qed

lemma constructColliderGroup_total:
  assumes "\<And>bone. \<exists>g. newColliderGroup cls bone = Inr g"
    and "\<And>g offset r. \<exists>g'. addCollider cls g offset r = Inr g'"
  shows "\<exists>g. constructColliderGroup cls getBone cfg = Inr g"
proof -
  from assms(1) obtain g where g: "newColliderGroup cls (getBone (cfg_node cfg)) = Inr g"
    by blast
  have "\<exists>r. forEachE (\<lambda>collider g'.
                 addCollider cls g'
                   (Vector3 (jneg (vx (cfg_offset collider))) (vy (cfg_offset collider))
                      (jneg (vz (cfg_offset collider))))
                   (cfg_radius collider))
               (cfg_colliders cfg) g = Inr r"
    by (rule forEachE_never_fails) (rule assms(2))
  then show ?thesis by (simp add: constructColliderGroup_def g)
qed

lemma constructColliderGroups_total:
  assumes "\<And>bone. \<exists>g. newColliderGroup cls bone = Inr g"
    and "\<And>g offset r. \<exists>g'. addCollider cls g offset r = Inr g'"
  shows "\<exists>gs. constructColliderGroups cls ext getBone = Inr gs"
proof -
  have "\<And>cgs acc. \<exists>r. forEachE (\<lambda>x acc. case constructColliderGroup cls getBone x of
                 Inl e \<Rightarrow> Inl e | Inr y \<Rightarrow> Inr (acc @ [y])) cgs acc = Inr r"
    by (rule forEachE_total) (rule constructColliderGroup_total [OF assms])
  then show ?thesis
    by (simp add: constructColliderGroups_def split: option.splits)
qed

lemma constructSprings_total:
  assumes "\<And>args. \<exists>s. newVRMSpringBone cls args = Inr s"
  shows "\<exists>ss. constructSprings cls ext getBone colliderGroups options = Inr ss"
proof -
  have "\<And>bgs acc. \<exists>r. forEachE (\<lambda>x acc.
            case newVRMSpringBone cls (springArgs getBone colliderGroups options x) of
              Inl e \<Rightarrow> Inl e | Inr y \<Rightarrow> Inr (acc @ [y])) bgs acc = Inr r"
    by (rule forEachE_total) (rule assms)
  then show ?thesis
    by (simp add: constructSprings_def split: option.splits)
qed

lemma controller_total:
  assumes "\<And>bone. \<exists>g. newColliderGroup cls bone = Inr g"
    and "\<And>g offset r. \<exists>g'. addCollider cls g offset r = Inr g'"
    and "\<And>args. \<exists>s. newVRMSpringBone cls args = Inr s"
  shows "\<exists>ss. SpringBoneController cls ext getBone options = Inr ss \<and>
           length ss = length (case ext_boneGroups ext of Some bgs \<Rightarrow> bgs | None \<Rightarrow> [])"
proof -
  from constructColliderGroups_total [OF assms(1,2)] obtain gs
    where gs: "constructColliderGroups cls ext getBone = Inr gs" by blast
  from constructSprings_total [OF assms(3)] obtain ss
    where ss: "constructSprings cls ext getBone gs options = Inr ss" by blast
  from constructSprings_all [OF ss] have "length ss
      = length (case ext_boneGroups ext of Some bgs \<Rightarrow> bgs | None \<Rightarrow> [])"
    by (simp add: list_all2_lengthD)
  then show ?thesis by (simp add: SpringBoneController_def gs ss)
qed

lemma hair_colliderGroup:
  "constructColliderGroup specClasses noBones headColliders = Inr unownedGroup"
  by (simp add: constructColliderGroup_def specClasses_def headColliders_def noBones_def
      unownedGroup_def V3_def)

lemma hair_colliderGroups:
  "constructColliderGroups specClasses hairConfig noBones = Inr [unownedGroup]"
  by (simp add: constructColliderGroups_def hair_colliderGroup hairConfig_def)

lemma hair_springArgs: "springArgs noBones [unownedGroup] None hairGroup = rootlessSpring"
  by (simp add: springArgs_def hairGroup_def overrideNumber_def overrideVector_def index_def
      noBones_def rootlessSpring_def vnormalize_V3 [unfolded V3_def] V3_def sqrt_values)

lemma hair_springs:
  "constructSprings specClasses hairConfig noBones [unownedGroup] None = Inr [rootlessSpring]"
  by (simp add: constructSprings_def hair_springArgs hairConfig_def)
     (simp add: specClasses_def)

lemma hair_controller:
  "SpringBoneController specClasses hairConfig noBones None = Inr [rootlessSpring]"
  by (simp add: SpringBoneController_def hair_colliderGroups hair_springs)

text \<open>
  Claim C3, as amended. The controller omits nothing and checks no resolved node for
  \<open>null\<close>. When \<open>constructColliderGroups\<close> returns, it has built one collider group for
  each configured collider group, in order; when \<open>constructSprings\<close> returns, it has
  built one spring for each configured bone group, in order. What the resolver returns is
  passed on as it is, \<open>null\<close> included: as the root bones and the center of the spring
  and as the owner of the collider group. The controller raises no error of its own: when
  the constructors of \<open>ColliderGroup\<close> and \<open>VRMSpringBone\<close> and \<open>addCollider\<close> raise
  none, the constructor of the controller returns, with as many springs as there are bone
  groups.
\<close>

theorem controller_omits_nothing:
  "(constructColliderGroups cls ext getBone = Inr gs \<longrightarrow>
      list_all2 (\<lambda>cfg g. constructColliderGroup cls getBone cfg = Inr g)
        (case ext_colliderGroups ext of Some cgs \<Rightarrow> cgs | None \<Rightarrow> []) gs) \<and>
   (constructSprings cls ext getBone colliderGroups options = Inr ss \<longrightarrow>
      list_all2 (\<lambda>cfg s. newVRMSpringBone cls (springArgs getBone colliderGroups options cfg) = Inr s)
        (case ext_boneGroups ext of Some bgs \<Rightarrow> bgs | None \<Rightarrow> []) ss) \<and>
   arg_bones (springArgs getBone colliderGroups options spring)
     = map getBone (case cfg_bones spring of Some bs \<Rightarrow> bs | None \<Rightarrow> []) \<and>
   arg_center (springArgs getBone colliderGroups options spring) = getBone (cfg_center spring) \<and>
   ((\<forall>bone. \<exists>g. newColliderGroup cls bone = Inr g) \<and>
    (\<forall>g offset r. \<exists>g'. addCollider cls g offset r = Inr g') \<and>
    (\<forall>args. \<exists>s. newVRMSpringBone cls args = Inr s) \<longrightarrow>
      (\<exists>springs. SpringBoneController cls ext getBone options = Inr springs \<and>
         length springs = length (case ext_boneGroups ext of Some bgs \<Rightarrow> bgs | None \<Rightarrow> [])))"
proof (intro conjI impI)
  assume "constructColliderGroups cls ext getBone = Inr gs"
  then show "list_all2 (\<lambda>cfg g. constructColliderGroup cls getBone cfg = Inr g)
        (case ext_colliderGroups ext of Some cgs \<Rightarrow> cgs | None \<Rightarrow> []) gs"
    by (rule constructColliderGroups_all)
next
  assume "constructSprings cls ext getBone colliderGroups options = Inr ss"
  then show "list_all2
      (\<lambda>cfg s. newVRMSpringBone cls (springArgs getBone colliderGroups options cfg) = Inr s)
        (case ext_boneGroups ext of Some bgs \<Rightarrow> bgs | None \<Rightarrow> []) ss"
    by (rule constructSprings_all)
next
  show "arg_bones (springArgs getBone colliderGroups options spring)
     = map getBone (case cfg_bones spring of Some bs \<Rightarrow> bs | None \<Rightarrow> [])"
    by (simp add: springArgs_def Let_def)
next
  show "arg_center (springArgs getBone colliderGroups options spring) = getBone (cfg_center spring)"
    by (simp add: springArgs_def Let_def)
next
  assume a: "(\<forall>bone. \<exists>g. newColliderGroup cls bone = Inr g) \<and>
    (\<forall>g offset r. \<exists>g'. addCollider cls g offset r = Inr g') \<and>
    (\<forall>args. \<exists>s. newVRMSpringBone cls args = Inr s)"
  show "\<exists>springs. SpringBoneController cls ext getBone options = Inr springs \<and>
         length springs = length (case ext_boneGroups ext of Some bgs \<Rightarrow> bgs | None \<Rightarrow> [])"
    by (rule controller_total) (use a in blast)+
qed

theorem controller_omits_nothing_witness:
  "constructColliderGroups specClasses hairConfig noBones = Inr [unownedGroup] \<and>
   constructColliderGroup specClasses noBones headColliders = Inr unownedGroup \<and>
   constructSprings specClasses hairConfig noBones [unownedGroup] None = Inr [rootlessSpring] \<and>
   newVRMSpringBone specClasses (springArgs noBones [unownedGroup] None hairGroup)
     = Inr rootlessSpring \<and>
   arg_bones (springArgs noBones [unownedGroup] None hairGroup) = [None] \<and>
   arg_center (springArgs noBones [unownedGroup] None hairGroup) = None \<and>
   \<not> isl (SpringBoneController specClasses hairConfig noBones None) \<and>
   length (projr (SpringBoneController specClasses hairConfig noBones None)) = 1"
proof -
  note inst = controller_omits_nothing [of specClasses hairConfig noBones "[unownedGroup]"
      "[unownedGroup]" None "[rootlessSpring]" hairGroup]
  have total: "(\<forall>bone. \<exists>g. newColliderGroup specClasses bone = Inr g) \<and>
    (\<forall>g offset r. \<exists>g'. addCollider specClasses g offset r = Inr g') \<and>
    (\<forall>args. \<exists>s. newVRMSpringBone specClasses args = Inr s)"
    by (simp add: specClasses_def)
  have cfg: "ext_colliderGroups hairConfig = Some [headColliders]"
    "ext_boneGroups hairConfig = Some [hairGroup]"
    "cfg_bones hairGroup = Some [7]" "cfg_center hairGroup = - 1"
    by (simp_all add: hairConfig_def hairGroup_def)
  from inst [THEN conjunct1, rule_format, OF hair_colliderGroups]
  have 1: "constructColliderGroup specClasses noBones headColliders = Inr unownedGroup"
    by (simp add: cfg)
  from inst [THEN conjunct2, THEN conjunct1, rule_format, OF hair_springs]
  have 2: "newVRMSpringBone specClasses (springArgs noBones [unownedGroup] None hairGroup)
     = Inr rootlessSpring"
    by (simp add: cfg)
  from inst [THEN conjunct2, THEN conjunct2, THEN conjunct1]
  have 3: "arg_bones (springArgs noBones [unownedGroup] None hairGroup) = [None]"
    by (simp add: cfg noBones_def)
  from inst [THEN conjunct2, THEN conjunct2, THEN conjunct2, THEN conjunct1]
  have 4: "arg_center (springArgs noBones [unownedGroup] None hairGroup) = None"
    by (simp add: cfg noBones_def)
  from inst [THEN conjunct2, THEN conjunct2, THEN conjunct2, THEN conjunct2, rule_format, OF total]
  have 5: "\<not> isl (SpringBoneController specClasses hairConfig noBones None) \<and>
     length (projr (SpringBoneController specClasses hairConfig noBones None)) = 1"
    by (auto simp: cfg)
  from hair_colliderGroups 1 hair_springs 2 3 4 5 show ?thesis by (intro conjI) simp_all
qed

text \<open>
  The claim as it was stated says that a chain or collider group is left out when its node
  index does not resolve. With the classes as the specification describes them and a
  resolver that resolves nothing, the one collider group and the one chain of the
  configuration are both built, the group without owner and the chain with a \<open>null\<close>
  root bone.
\<close>

theorem missing_reference_counterexample:
  "\<not> resolvableGroup noBones headColliders \<and>
   \<not> resolvable noBones hairGroup \<and>
   ext_colliderGroups hairConfig = Some [headColliders] \<and>
   ext_boneGroups hairConfig = Some [hairGroup] \<and>
   constructColliderGroups specClasses hairConfig noBones = Inr [unownedGroup] \<and>
   SpringBoneController specClasses hairConfig noBones None = Inr [rootlessSpring]"
  by (simp only: hair_colliderGroups hair_controller)
     (simp add: resolvable_def resolvableGroup_def noBones_def hairGroup_def headColliders_def
        hairConfig_def)

subsection \<open>The time step\<close>




subsection \<open>Overrides\<close>

text \<open>
  Claim C6, as amended. For the four numbers (stiffness, gravity power, drag force, hit
  radius) the override replaces the authored value only when the options and the field
  are there and the value is neither zero nor NaN; an override of exactly zero gives the
  authored value. For the direction of gravity the override replaces the authored value
  whenever the options and the field are there, also when it is the zero vector;
  otherwise the authored direction is used, with x and z negated, normalized.
\<close>

theorem override_precedence:
  "arg_stiffness (springArgs getBone colliderGroups options spring) =
     (case options of
        None \<Rightarrow> cfg_stiffiness spring
      | Some opts \<Rightarrow>
          (case opt_stiffness opts of
             None \<Rightarrow> cfg_stiffiness spring
           | Some v \<Rightarrow> if v = Fin 0 \<or> v = NaN then cfg_stiffiness spring else v)) \<and>
   arg_gravityPower (springArgs getBone colliderGroups options spring) =
     (case options of
        None \<Rightarrow> cfg_gravityPower spring
      | Some opts \<Rightarrow>
          (case opt_gravityPower opts of
             None \<Rightarrow> cfg_gravityPower spring
           | Some v \<Rightarrow> if v = Fin 0 \<or> v = NaN then cfg_gravityPower spring else v)) \<and>
   arg_dragForce (springArgs getBone colliderGroups options spring) =
     (case options of
        None \<Rightarrow> cfg_dragForce spring
      | Some opts \<Rightarrow>
          (case opt_dragForce opts of
             None \<Rightarrow> cfg_dragForce spring
           | Some v \<Rightarrow> if v = Fin 0 \<or> v = NaN then cfg_dragForce spring else v)) \<and>
   arg_hitRadius (springArgs getBone colliderGroups options spring) =
     (case options of
        None \<Rightarrow> cfg_hitRadius spring
      | Some opts \<Rightarrow>
          (case opt_hitRadius opts of
             None \<Rightarrow> cfg_hitRadius spring
           | Some v \<Rightarrow> if v = Fin 0 \<or> v = NaN then cfg_hitRadius spring else v)) \<and>
   arg_gravityDir (springArgs getBone colliderGroups options spring) =
     (case options of
        None \<Rightarrow> vnormalize (Vector3 (jneg (vx (cfg_gravityDir spring))) (vy (cfg_gravityDir spring))
                    (jneg (vz (cfg_gravityDir spring))))
      | Some opts \<Rightarrow>
          (case opt_gravityDir opts of
             None \<Rightarrow> vnormalize (Vector3 (jneg (vx (cfg_gravityDir spring)))
                         (vy (cfg_gravityDir spring)) (jneg (vz (cfg_gravityDir spring))))
           | Some v \<Rightarrow> v))"
proof -
  have t: "\<And>v. truthy v \<longleftrightarrow> \<not> (v = Fin 0 \<or> v = NaN)"
  proof -
    fix v show "truthy v \<longleftrightarrow> \<not> (v = Fin 0 \<or> v = NaN)" by (cases v) simp_all
  qed
  show ?thesis
    by (simp add: springArgs_def overrideNumber_def overrideVector_def t Let_def
        split: option.splits)
qed

theorem override_precedence_witness:
  "arg_stiffness (springArgs noBones ([] :: ColliderGroup list) (Some zeroStiffness) hairGroup)
     = Fin 1 \<and>
   arg_dragForce (springArgs noBones ([] :: ColliderGroup list) (Some zeroStiffness) hairGroup)
     = Fin (1 / 2) \<and>
   arg_hitRadius (springArgs noBones ([] :: ColliderGroup list) (Some zeroStiffness) hairGroup)
     = Fin (2 / 100) \<and>
   arg_gravityDir (springArgs noBones ([] :: ColliderGroup list) (Some zeroStiffness) hairGroup)
     = V3 0 (- 1) 0"
  using override_precedence [of noBones "[] :: ColliderGroup list" "Some zeroStiffness" hairGroup]
  by (simp add: zeroStiffness_def hairGroup_def vnormalize_V3 [unfolded V3_def] V3_def sqrt_values)

text \<open>
  The claim as it was stated covers the direction of gravity too. An override by the zero
  vector is taken, where the authored direction would have given (0, -1, 0).
\<close>

theorem override_zero_vector_counterexample:
  "opt_gravityDir zeroGravityDir = Some (V3 0 0 0) \<and>
   arg_gravityDir (springArgs noBones ([] :: ColliderGroup list) (Some zeroGravityDir) hairGroup)
     = V3 0 0 0 \<and>
   arg_gravityDir (springArgs noBones ([] :: ColliderGroup list) None hairGroup) = V3 0 (- 1) 0"
  by (simp add: springArgs_def overrideVector_def zeroGravityDir_def hairGroup_def Zero_V3
      vnormalize_V3 [unfolded V3_def] V3_def sqrt_values)

end
